theory Spec2Isabelle
  imports Complex_Main "HOL-Library.Sublist"
begin

section \<open>The eBird proxy: configuration\<close>

text \<open>
  The development embeds the two serverless handlers of the repository,
  \<^verbatim>\<open>api/ebird-enhanced.js\<close> (allowlist, rate limiting, in-memory cache) and
  \<^verbatim>\<open>api/ebird.js\<close> (allowlist only).  JavaScript strings are \<^typ>\<open>string\<close>,
  \<^verbatim>\<open>String.prototype.startsWith\<close> is \<^const>\<open>prefix\<close>.  Every number the
  handlers compute is a millisecond timestamp, a counter or a status code: an
  integer far inside the range in which IEEE doubles are exact, so numbers are
  \<^typ>\<open>int\<close>, and \<^verbatim>\<open>Math.ceil(x / 1000)\<close> is the ceiling of a real quotient.
\<close>

definition ALLOWED_PATHS :: "string list" where
  "ALLOWED_PATHS =
     [''/data/obs/'',
      ''/ref/hotspot/'',
      ''/ref/region/'',
      ''/product/spplist/'',
      ''/product/checklist/'',
      ''/product/top100/'',
      ''/ref/taxonomy/'']"

text \<open>
  \<^verbatim>\<open>CACHE_TTL\<close> is an object literal; \<^verbatim>\<open>Object.entries\<close> lists its string keys
  in the order they are written, the key \<^verbatim>\<open>default\<close> included.
\<close>

definition CACHE_TTL :: "(string \<times> int) list" where
  "CACHE_TTL =
     [(''/data/obs/'', 5 * 60 * 1000),
      (''/ref/hotspot/'', 30 * 60 * 1000),
      (''/ref/region/'', 60 * 60 * 1000),
      (''/product/spplist/'', 60 * 60 * 1000),
      (''/ref/taxonomy/'', 24 * 60 * 60 * 1000),
      (''default'', 5 * 60 * 1000)]"

record rate_config =
  windowMs :: int
  maxRequests :: int

definition RATE_LIMIT :: rate_config where
  "RATE_LIMIT = \<lparr>windowMs = 60 * 1000, maxRequests = 100\<rparr>"

section \<open>TTL policy and cache key\<close>

text \<open>The \<^verbatim>\<open>for ... of Object.entries(CACHE_TTL)\<close> loop of \<^verbatim>\<open>getCacheTTL\<close>:
  the first entry whose key the endpoint starts with decides.\<close>

fun getCacheTTL_loop :: "(string \<times> int) list \<Rightarrow> string \<Rightarrow> int option" where
  "getCacheTTL_loop [] endpoint = None"
| "getCacheTTL_loop ((path, ttl) # entries) endpoint =
     (if prefix path endpoint then Some ttl else getCacheTTL_loop entries endpoint)"

text \<open>\<^verbatim>\<open>CACHE_TTL.default\<close>: the property read after the loop.  The literal has
  the key, so the \<^verbatim>\<open>undefined\<close> of a missing property never arises; the
  model writes 0 there.\<close>

definition CACHE_TTL_default :: int where
  "CACHE_TTL_default = (case map_of CACHE_TTL ''default'' of Some ttl \<Rightarrow> ttl | None \<Rightarrow> 0)"

definition getCacheTTL :: "string \<Rightarrow> int" where
  "getCacheTTL endpoint =
     (case getCacheTTL_loop CACHE_TTL endpoint of
        Some ttl \<Rightarrow> ttl
      | None \<Rightarrow> CACHE_TTL_default)"

definition getCacheKey :: "string \<Rightarrow> string" where
  "getCacheKey endpoint = ''ebird:'' @ endpoint"

section \<open>Rate limiter\<close>

record rate_record =
  count :: int
  resetTime :: int

text \<open>The object \<^verbatim>\<open>checkRateLimit\<close> returns; its \<^verbatim>\<open>resetTime\<close> field is
  \<open>check_resetTime\<close> here, the name \<open>resetTime\<close> being the stored record's.\<close>

record rate_check =
  allowed :: bool
  remaining :: int
  check_resetTime :: int

type_synonym rate_map = "string \<rightharpoonup> rate_record"

text \<open>
  \<^verbatim>\<open>checkRateLimit(ip)\<close> reads the clock once (\<open>now\<close>), and reads and writes
  the module-level map \<^verbatim>\<open>rateLimits\<close>: the model takes both and returns
  the updated map beside the result.
\<close>

definition checkRateLimit :: "int \<Rightarrow> rate_map \<Rightarrow> string \<Rightarrow> rate_check \<times> rate_map" where
  "checkRateLimit now rateLimits ip =
     (let rcd = (case rateLimits ip of
                   Some r \<Rightarrow> r
                 | None \<Rightarrow> \<lparr>count = 0, resetTime = now + windowMs RATE_LIMIT\<rparr>);
          rcd = (if now > resetTime rcd
                 then rcd\<lparr>count := 0, resetTime := now + windowMs RATE_LIMIT\<rparr>
                 else rcd);
          rcd = rcd\<lparr>count := count rcd + 1\<rparr>
      in (\<lparr>allowed = (count rcd \<le> maxRequests RATE_LIMIT),
           remaining = max 0 (maxRequests RATE_LIMIT - count rcd),
           check_resetTime = resetTime rcd\<rparr>,
          rateLimits(ip \<mapsto> rcd)))"

definition cleanupRateLimits :: "int \<Rightarrow> rate_map \<Rightarrow> rate_map" where
  "cleanupRateLimits now rateLimits =
     (\<lambda>ip. case rateLimits ip of
             None \<Rightarrow> None
           | Some rcd \<Rightarrow> if now > resetTime rcd + 60000 then None else Some rcd)"

text \<open>Successive \<^verbatim>\<open>checkRateLimit\<close> calls of one client, at the given clock
  readings: the results in call order, and the map after the last call.\<close>

fun admits :: "rate_map \<Rightarrow> string \<Rightarrow> int list \<Rightarrow> rate_check list \<times> rate_map" where
  "admits rateLimits ip [] = ([], rateLimits)"
| "admits rateLimits ip (now # nows) =
     (let (r, rateLimits') = checkRateLimit now rateLimits ip;
          (rs, rateLimits'') = admits rateLimits' ip nows
      in (r # rs, rateLimits''))"

section \<open>Cache store\<close>

text \<open>A cache entry \<^verbatim>\<open>{ data, expiry }\<close>; the payload is whatever
  \<^verbatim>\<open>response.json()\<close> produced, which the handler never inspects: a type
  parameter.\<close>

record 'j cache_entry =
  data :: 'j
  expiry :: int

type_synonym 'j cache_map = "string \<rightharpoonup> 'j cache_entry"

definition cleanupCache :: "int \<Rightarrow> 'j cache_map \<Rightarrow> 'j cache_map" where
  "cleanupCache now cache =
     (\<lambda>key. case cache key of
              None \<Rightarrow> None
            | Some entry \<Rightarrow> if now > expiry entry then None else Some entry)"

text \<open>The two module-level maps, which persist between invocations.\<close>

record 'j state =
  cache :: "'j cache_map"
  rateLimits :: rate_map

definition cold_start :: "'j state" where
  "cold_start = \<lparr>cache = Map.empty, rateLimits = Map.empty\<rparr>"

section \<open>Requests, responses and the environment of one invocation\<close>

text \<open>\<^verbatim>\<open>req.query.endpoint\<close> is \<^verbatim>\<open>undefined\<close>, a string, or an array of
  strings (a parameter given several times).\<close>

datatype query_value = Absent | Single string | Multiple "string list"

text \<open>The field \<open>req_method\<close> is \<^verbatim>\<open>req.method\<close>.\<close>

record request =
  req_method :: string
  headers :: "string \<rightharpoonup> string"
  endpoint :: query_value

datatype header_value = HStr string | HNum int

datatype jvalue = Str string | Num int | Strs "string list"

text \<open>What the handler sends: \<^verbatim>\<open>res.end()\<close>, \<^verbatim>\<open>res.json\<close> of an object literal
  built by the handler, or \<^verbatim>\<open>res.json\<close> of a payload.\<close>

datatype 'j body = End | Object "(string \<times> jvalue) list" | Payload 'j

record 'j response =
  status :: int
  res_headers :: "string \<rightharpoonup> header_value"
  body :: "'j body"

text \<open>
  The upstream's answer to \<^verbatim>\<open>fetch\<close>.  A promise that rejects is \<open>Inl\<close> of
  the error's message: \<^verbatim>\<open>fetch\<close> itself (no HTTP status was obtained), or
  \<^verbatim>\<open>response.text()\<close> and \<^verbatim>\<open>response.json()\<close>, each of which the handler
  calls on one path only.
\<close>

record 'j fetch_response =
  fetch_status :: int
  fetch_text :: "string + string"
  fetch_json :: "string + 'j"

definition ok :: "'j fetch_response \<Rightarrow> bool" where
  "ok r = (200 \<le> fetch_status r \<and> fetch_status r \<le> 299)"

text \<open>
  Everything one invocation reads from outside the two maps: the environment
  variable, the clock at each \<^verbatim>\<open>Date.now()\<close> of the source (named by the place
  of the call), the draw of \<^verbatim>\<open>Math.random()\<close>, and the upstream as a function
  of the URL and the token sent to it.
\<close>

record 'j env =
  EBIRD_API_KEY :: "string option"
  now_checkRateLimit :: int
  now_retryAfter :: int
  now_lookup :: int
  now_store :: int
  now_cleanupCache :: int
  now_cleanupRateLimits :: int
  math_random :: real
  fetch :: "string \<Rightarrow> string \<Rightarrow> string + 'j fetch_response"

text \<open>The result of one invocation: the response, the two maps as it leaves
  them, and the upstream calls it made, as (URL, token) pairs.\<close>

record 'j outcome =
  response :: "'j response"
  state_after :: "'j state"
  upstream_calls :: "(string \<times> string) list"

subsection \<open>JavaScript helpers\<close>

text \<open>Decimal rendering of a number in a template literal.\<close>

fun show_nat :: "nat \<Rightarrow> string" where
  "show_nat n =
     (if n < 10 then [''0123456789'' ! n]
      else show_nat (n div 10) @ [''0123456789'' ! (n mod 10)])"

declare show_nat.simps [simp del]

definition show_int :: "int \<Rightarrow> string" where
  "show_int i = (if i < 0 then CHR ''-'' # show_nat (nat (- i)) else show_nat (nat i))"

text \<open>\<^verbatim>\<open>String.prototype.trim\<close> on a header value, whose characters are
  single bytes: tab, line feed, vertical tab, form feed, carriage return,
  space and no-break space are white space.\<close>

definition js_space :: "char \<Rightarrow> bool" where
  "js_space c = (of_char c \<in> {9, 10, 11, 12, 13, 32, 160 :: nat})"

definition trim :: "string \<Rightarrow> string" where
  "trim s = rev (dropWhile js_space (rev (dropWhile js_space s)))"

text \<open>\<^verbatim>\<open>s.split(',')[0]\<close>: the text before the first comma.\<close>

definition split_comma_first :: "string \<Rightarrow> string" where
  "split_comma_first s = takeWhile (\<lambda>c. c \<noteq> CHR '','') s"

text \<open>\<^verbatim>\<open>a || b\<close> on strings that may be \<^verbatim>\<open>undefined\<close>: the empty string is
  falsy.\<close>

definition truthy :: "string option \<Rightarrow> bool" where
  "truthy v = (case v of None \<Rightarrow> False | Some s \<Rightarrow> s \<noteq> [])"

definition clientIP :: "(string \<rightharpoonup> string) \<Rightarrow> string" where
  "clientIP hs =
     (let forwarded = map_option (\<lambda>v. trim (split_comma_first v)) (hs ''x-forwarded-for'')
      in if truthy forwarded then the forwarded
         else if truthy (hs ''x-real-ip'') then the (hs ''x-real-ip'')
         else ''unknown'')"

text \<open>\<^verbatim>\<open>String(xs)\<close> of an array of strings: the elements joined by commas.\<close>

fun join_comma :: "string list \<Rightarrow> string" where
  "join_comma [] = []"
| "join_comma [x] = x"
| "join_comma (x # y # ys) = x @ '','' @ join_comma (y # ys)"

text \<open>The conversion to a string that \<^verbatim>\<open>decodeURIComponent\<close> applies to its
  argument.\<close>

definition to_String :: "query_value \<Rightarrow> string" where
  "to_String v =
     (case v of
        Absent \<Rightarrow> ''undefined''
      | Single s \<Rightarrow> s
      | Multiple xs \<Rightarrow> join_comma xs)"

text \<open>\<^verbatim>\<open>res.setHeader(name, value)\<close> on the headers set so far.\<close>

definition setHeader ::
  "string \<Rightarrow> header_value \<Rightarrow> (string \<rightharpoonup> header_value) \<Rightarrow> (string \<rightharpoonup> header_value)" where
  "setHeader name v hs = (\<lambda>n. if n = name then Some v else hs n)"

text \<open>The three CORS headers both handlers set first.\<close>

definition cors :: "string \<rightharpoonup> header_value" where
  "cors =
     (let hs = setHeader ''Access-Control-Allow-Origin'' (HStr ''*'') Map.empty;
          hs = setHeader ''Access-Control-Allow-Methods'' (HStr ''GET, OPTIONS'') hs;
          hs = setHeader ''Access-Control-Allow-Headers'' (HStr ''Content-Type'') hs
      in hs)"

definition isAllowed :: "string \<Rightarrow> bool" where
  "isAllowed decodedEndpoint = list_ex (\<lambda>path. prefix path decodedEndpoint) ALLOWED_PATHS"

definition ebirdUrl :: "string \<Rightarrow> string" where
  "ebirdUrl decodedEndpoint = ''https://api.ebird.org/v2'' @ decodedEndpoint"

section \<open>The handler of \<^verbatim>\<open>api/ebird-enhanced.js\<close>\<close>

text \<open>
  \<^verbatim>\<open>decodeURIComponent\<close> is the platform's: the handler takes it as a
  function that returns \<open>None\<close> where the built-in throws.  One invocation is
  modelled as running alone between its first and its last line: the only
  point where another invocation could run is the \<^verbatim>\<open>await\<close> of the fetch.
\<close>

definition respond ::
  "int \<Rightarrow> (string \<rightharpoonup> header_value) \<Rightarrow> 'j body \<Rightarrow> 'j state \<Rightarrow> (string \<times> string) list \<Rightarrow> 'j outcome" where
  "respond code hs b st calls =
     \<lparr>response = \<lparr>status = code, res_headers = hs, body = b\<rparr>,
      state_after = st, upstream_calls = calls\<rparr>"

text \<open>The headers set by lines 108 to 110, on top of the CORS headers.\<close>

definition rateLimitHeaders :: "rate_check \<Rightarrow> (string \<rightharpoonup> header_value)" where
  "rateLimitHeaders rateCheck =
     (let hs = setHeader ''X-RateLimit-Limit'' (HNum (maxRequests RATE_LIMIT)) cors;
          hs = setHeader ''X-RateLimit-Remaining'' (HNum (remaining rateCheck)) hs;
          hs = setHeader ''X-RateLimit-Reset''
                 (HNum \<lceil>real_of_int (check_resetTime rateCheck) / 1000\<rceil>) hs
      in hs)"

text \<open>
  Lines 168 to 221, the cache miss: the \<^verbatim>\<open>try\<close> block with its \<^verbatim>\<open>catch\<close>.
  \<open>st\<close> is the state and \<open>hs\<close> are the headers at line 168.  Whatever rejects
  inside the block, the \<^verbatim>\<open>catch\<close> answers 500 with the error's message.
\<close>

definition fetchFromEbird ::
  "'j env \<Rightarrow> 'j state \<Rightarrow> (string \<rightharpoonup> header_value) \<Rightarrow> string \<Rightarrow> string \<Rightarrow> 'j outcome" where
  "fetchFromEbird env st hs decodedEndpoint apiKey =
     (let cacheKey = getCacheKey decodedEndpoint;
          url = ebirdUrl decodedEndpoint;
          failed = (\<lambda>msg.
            respond 500 hs
              (Object [(''error'', Str ''Failed to fetch from eBird''), (''message'', Str msg)])
              st [(url, apiKey)])
      in
      case fetch env url apiKey of
        Inl msg \<Rightarrow> failed msg
      | Inr fetched \<Rightarrow>
          if \<not> ok fetched then
            (case fetch_text fetched of
               Inl msg \<Rightarrow> failed msg
             | Inr errorText \<Rightarrow>
                 respond (fetch_status fetched) hs
                   (Object [(''error'', Str (''eBird API error: '' @ show_int (fetch_status fetched))),
                            (''details'', Str errorText)])
                   st [(url, apiKey)])
          else
            (case fetch_json fetched of
               Inl msg \<Rightarrow> failed msg
             | Inr payload \<Rightarrow>
                 let ttl = getCacheTTL decodedEndpoint;
                     st2 = st\<lparr>cache := (cache st)
                             (cacheKey := Some \<lparr>data = payload, expiry = now_store env + ttl\<rparr>)\<rparr>;
                     st3 = (if math_random env < 0.01
                            then \<lparr>cache = cleanupCache (now_cleanupCache env) (cache st2),
                                  rateLimits = cleanupRateLimits (now_cleanupRateLimits env)
                                                 (rateLimits st2)\<rparr>
                            else st2);
                     maxAge = \<lfloor>real_of_int ttl / 1000\<rfloor>;
                     hs = setHeader ''Cache-Control''
                            (HStr (''s-maxage='' @ show_int maxAge
                                   @ '', stale-while-revalidate='' @ show_int (maxAge * 2))) hs;
                     hs = setHeader ''X-Cache'' (HStr ''MISS'') hs
                 in respond 200 hs (Payload payload) st3 [(url, apiKey)]))"

definition handler ::
  "(string \<Rightarrow> string option) \<Rightarrow> 'j env \<Rightarrow> 'j state \<Rightarrow> request \<Rightarrow> 'j outcome" where
  "handler decodeURIComponent env st req =
     (if req_method req = ''OPTIONS'' then respond 200 cors End st []
      else if req_method req \<noteq> ''GET'' then
        respond 405 cors (Object [(''error'', Str ''Method not allowed'')]) st []
      else
        let (rateCheck, rateLimits1) =
              checkRateLimit (now_checkRateLimit env) (rateLimits st) (clientIP (headers req));
            st1 = st\<lparr>rateLimits := rateLimits1\<rparr>;
            hs = rateLimitHeaders rateCheck;
            missing = respond 400 hs
              (Object [(''error'', Str ''Missing endpoint parameter''),
                       (''example'', Str ''/api/ebird?endpoint=/data/obs/US-MA/recent'')]) st1 []
        in
        if \<not> allowed rateCheck then
          respond 429 hs
            (Object [(''error'', Str ''Rate limit exceeded''),
                     (''retryAfter'',
                      Num \<lceil>real_of_int (check_resetTime rateCheck - now_retryAfter env) / 1000\<rceil>)])
            st1 []
        else
          case endpoint req of
            Absent \<Rightarrow> missing
          | Multiple xs \<Rightarrow> missing
          | Single endpoint_str \<Rightarrow>
              if endpoint_str = [] then missing
              else if \<not> truthy (EBIRD_API_KEY env) then
                respond 500 hs
                  (Object [(''error'', Str ''Server configuration error''),
                           (''hint'', Str ''EBIRD_API_KEY environment variable is not set'')])
                  st1 []
              else
                let apiKey = the (EBIRD_API_KEY env) in
                (case decodeURIComponent endpoint_str of
                   None \<Rightarrow>
                     respond 400 hs (Object [(''error'', Str ''Invalid endpoint encoding'')]) st1 []
                 | Some decodedEndpoint \<Rightarrow>
                     if \<not> isAllowed decodedEndpoint then
                       respond 403 hs
                         (Object [(''error'', Str ''Endpoint not allowed''),
                                  (''allowed'', Strs ALLOWED_PATHS)])
                         st1 []
                     else
                       let cacheKey = getCacheKey decodedEndpoint;
                           cachedEntry = cache st1 cacheKey
                       in
                       if cachedEntry \<noteq> None \<and> now_lookup env < expiry (the cachedEntry) then
                         let hs = setHeader ''X-Cache'' (HStr ''HIT'') hs;
                             hs = setHeader ''Cache-Control''
                                    (HStr ''s-maxage=60, stale-while-revalidate=300'') hs
                         in respond 200 hs (Payload (data (the cachedEntry))) st1 []
                       else fetchFromEbird env st1 hs decodedEndpoint apiKey))"

section \<open>The handler of \<^verbatim>\<open>api/ebird.js\<close>\<close>

text \<open>This handler keeps no state.  Its allowlist is a local constant with the
  same seven prefixes; it tests \<^verbatim>\<open>!endpoint\<close> only, so an array of strings
  goes on to \<^verbatim>\<open>decodeURIComponent\<close>, which converts it to a string first.  Of
  the environment it reads the key and the upstream.\<close>

definition allowedPaths :: "string list" where
  "allowedPaths =
     [''/data/obs/'',
      ''/ref/hotspot/'',
      ''/ref/region/'',
      ''/product/spplist/'',
      ''/product/checklist/'',
      ''/product/top100/'',
      ''/ref/taxonomy/'']"

definition handler_ebird ::
  "(string \<Rightarrow> string option) \<Rightarrow> 'j env \<Rightarrow> request \<Rightarrow> 'j response \<times> (string \<times> string) list" where
  "handler_ebird decodeURIComponent env req =
     (if req_method req = ''OPTIONS'' then
        (\<lparr>status = 200, res_headers = cors, body = End\<rparr>, [])
      else if req_method req \<noteq> ''GET'' then
        (\<lparr>status = 405, res_headers = cors,
          body = Object [(''error'', Str ''Method not allowed'')]\<rparr>, [])
      else if endpoint req = Absent \<or> endpoint req = Single [] then
        (\<lparr>status = 400, res_headers = cors,
          body = Object [(''error'', Str ''Missing endpoint parameter''),
                         (''usage'', Str ''/api/ebird?endpoint=/data/obs/geo/recent?lat=42&lng=-72'')]\<rparr>,
         [])
      else if \<not> truthy (EBIRD_API_KEY env) then
        (\<lparr>status = 500, res_headers = cors,
          body = Object [(''error'', Str ''Server configuration error'')]\<rparr>, [])
      else
        let apiKey = the (EBIRD_API_KEY env) in
        (case decodeURIComponent (to_String (endpoint req)) of
          None \<Rightarrow>
            (\<lparr>status = 400, res_headers = cors,
              body = Object [(''error'', Str ''Invalid endpoint encoding'')]\<rparr>, [])
        | Some decodedEndpoint \<Rightarrow>
            if \<not> list_ex (\<lambda>path. prefix path decodedEndpoint) allowedPaths then
              (\<lparr>status = 403, res_headers = cors,
                body = Object [(''error'', Str ''Endpoint not allowed''),
                               (''allowedPaths'', Strs allowedPaths)]\<rparr>, [])
            else
              let url = ebirdUrl decodedEndpoint;
                  failed = (\<lambda>msg.
                    (\<lparr>status = 500, res_headers = cors,
                      body = Object [(''error'', Str ''Failed to fetch from eBird API''),
                                     (''message'', Str msg)]\<rparr>,
                     [(url, apiKey)]))
              in
              (case fetch env url apiKey of
                Inl msg \<Rightarrow> failed msg
              | Inr fetched \<Rightarrow>
                  if \<not> ok fetched then
                    (case fetch_text fetched of
                       Inl msg \<Rightarrow> failed msg
                     | Inr errorText \<Rightarrow>
                         (\<lparr>status = fetch_status fetched, res_headers = cors,
                           body = Object [(''error'',
                                           Str (''eBird API error: '' @ show_int (fetch_status fetched))),
                                          (''details'', Str errorText)]\<rparr>,
                          [(url, apiKey)]))
                  else
                    (case fetch_json fetched of
                       Inl msg \<Rightarrow> failed msg
                     | Inr payload \<Rightarrow>
                         (\<lparr>status = 200,
                           res_headers = setHeader ''Cache-Control''
                                           (HStr ''s-maxage=300, stale-while-revalidate'') cors,
                           body = Payload payload\<rparr>,
                          [(url, apiKey)])))))"

section \<open>Vocabulary of the properties\<close>

text \<open>
  The TTL policy in the words of the specification, to be compared with
  \<^const>\<open>getCacheTTL\<close>: a fixed ordered table of (prefix, duration) pairs, the
  duration of the first prefix the path starts with, a default of five
  minutes otherwise.  Durations are in milliseconds, as in the code.
\<close>

definition minutes :: "int \<Rightarrow> int" where
  "minutes n = n * 60 * 1000"

definition hours :: "int \<Rightarrow> int" where
  "hours n = minutes (n * 60)"

definition ttl_table :: "(string \<times> int) list" where
  "ttl_table =
     [(''/data/obs/'', minutes 5),
      (''/ref/hotspot/'', minutes 30),
      (''/ref/region/'', minutes 60),
      (''/product/spplist/'', minutes 60),
      (''/ref/taxonomy/'', hours 24)]"

definition ttlFor :: "string \<Rightarrow> int" where
  "ttlFor normalizedPath =
     (case find (\<lambda>(p, d). prefix p normalizedPath) ttl_table of
        Some (p, d) \<Rightarrow> d
      | None \<Rightarrow> minutes 5)"

text \<open>The rate limiter admits the request: the test of line 112 fails.\<close>

definition admitted :: "'j env \<Rightarrow> 'j state \<Rightarrow> request \<Rightarrow> bool" where
  "admitted env st req =
     allowed (fst (checkRateLimit (now_checkRateLimit env) (rateLimits st)
                     (clientIP (headers req))))"

text \<open>The map \<^verbatim>\<open>rateLimits\<close> after the call of line 107.\<close>

definition counted :: "'j env \<Rightarrow> 'j state \<Rightarrow> request \<Rightarrow> rate_map" where
  "counted env st req =
     snd (checkRateLimit (now_checkRateLimit env) (rateLimits st) (clientIP (headers req)))"

text \<open>
  \<open>Some d\<close> when the invocation gets to the allowlist test of line 149, with
  \<^verbatim>\<open>decodedEndpoint\<close> equal to \<open>d\<close>: the method is GET, the rate limiter
  admits, the parameter is a non-empty string, the key is configured and the
  parameter decodes to \<open>d\<close>.  \<open>None\<close> when the invocation returns earlier.
\<close>

definition at_allowlist ::
  "(string \<Rightarrow> string option) \<Rightarrow> 'j env \<Rightarrow> 'j state \<Rightarrow> request \<Rightarrow> string option" where
  "at_allowlist decodeURIComponent env st req =
     (if req_method req = ''GET'' \<and> admitted env st req \<and> truthy (EBIRD_API_KEY env)
      then (case endpoint req of
              Single s \<Rightarrow> if s = [] then None else decodeURIComponent s
            | _ \<Rightarrow> None)
      else None)"

text \<open>The invocation gets to the cache lookup of line 159 with
  \<^verbatim>\<open>decodedEndpoint\<close> equal to \<open>d\<close>.\<close>

definition reaches_lookup ::
  "(string \<Rightarrow> string option) \<Rightarrow> 'j env \<Rightarrow> 'j state \<Rightarrow> request \<Rightarrow> string \<Rightarrow> bool" where
  "reaches_lookup decodeURIComponent env st req d =
     (at_allowlist decodeURIComponent env st req = Some d \<and> isAllowed d)"

text \<open>A field of the JSON object in a response body.\<close>

definition body_field :: "string \<Rightarrow> 'j body \<Rightarrow> jvalue option" where
  "body_field name b = (case b of Object fs \<Rightarrow> map_of fs name | _ \<Rightarrow> None)"

text \<open>A stored reset time is at most one window ahead of the clock: every reset
  time is written as \<open>now + windowMs\<close>, so this holds of every record as long
  as the clock does not run backwards.\<close>

definition reset_within_window :: "int \<Rightarrow> rate_map \<Rightarrow> string \<Rightarrow> bool" where
  "reset_within_window now rl ip =
     (case rl ip of
        None \<Rightarrow> True
      | Some r \<Rightarrow> resetTime r \<le> now + windowMs RATE_LIMIT)"

section \<open>Example inputs\<close>

text \<open>
  A GET request for a path, with no forwarding header (its client key is
  \<^verbatim>\<open>unknown\<close>), and an invocation in which every clock reading is \<open>t\<close>,
  the key is configured, the random draw does not trigger the sweep and the
  upstream gives \<open>reply\<close>.  The example paths hold no percent sign; on such
  strings \<^verbatim>\<open>decodeURIComponent\<close> is the identity, so the examples take
  \<^const>\<open>Some\<close> for it.
\<close>

definition get_request :: "string \<Rightarrow> request" where
  "get_request path = \<lparr>req_method = ''GET'', headers = Map.empty, endpoint = Single path\<rparr>"

definition at_time :: "int \<Rightarrow> string + string fetch_response \<Rightarrow> string env" where
  "at_time t reply =
     \<lparr>EBIRD_API_KEY = Some ''secret'',
      now_checkRateLimit = t, now_retryAfter = t, now_lookup = t, now_store = t,
      now_cleanupCache = t, now_cleanupRateLimits = t,
      math_random = 1 / 2,
      fetch = (\<lambda>url token. reply)\<rparr>"

definition not_found :: "string + string fetch_response" where
  "not_found = Inr \<lparr>fetch_status = 404, fetch_text = Inr ''Not Found'',
                    fetch_json = Inl ''Unexpected token N in JSON at position 0''\<rparr>"

text \<open>An upstream that answers 404 and whose body cannot be read: the
  connection ends before the text arrives, so \<^verbatim>\<open>response.text()\<close> rejects.\<close>

definition body_lost :: "string + string fetch_response" where
  "body_lost = Inr \<lparr>fetch_status = 404, fetch_text = Inl ''terminated'',
                    fetch_json = Inl ''terminated''\<rparr>"

definition sightings :: "string + string fetch_response" where
  "sightings = Inr \<lparr>fetch_status = 200, fetch_text = Inr ''[]'', fetch_json = Inr ''[]''\<rparr>"

text \<open>The state in which the client \<^verbatim>\<open>unknown\<close> has made \<open>n\<close> requests in a
  window that closes at \<open>t\<close>.\<close>

definition counted_to :: "int \<Rightarrow> int \<Rightarrow> string state" where
  "counted_to n t =
     \<lparr>cache = Map.empty, rateLimits = [''unknown'' \<mapsto> \<lparr>count = n, resetTime = t\<rparr>]\<rparr>"

text \<open>The state whose cache holds one entry, for \<open>path\<close>, and whose rate map
  is empty.\<close>

definition holding :: "string \<Rightarrow> string \<Rightarrow> int \<Rightarrow> string state" where
  "holding path payload t =
     \<lparr>cache = [getCacheKey path \<mapsto> \<lparr>data = payload, expiry = t\<rparr>], rateLimits = Map.empty\<rparr>"

section \<open>TTL policy: the code and the table\<close>

text \<open>
  C7.  \<^const>\<open>getCacheTTL\<close> is the specification's \<^const>\<open>ttlFor\<close>: on every
  path it returns the duration of the first prefix of the fixed table that
  the path starts with, and five minutes when none matches (the extra key
  \<^verbatim>\<open>default\<close> the loop also visits carries the default duration, so it
  changes no result).  The durations are 5 minutes for observation paths,
  30 minutes for hotspot paths, 60 minutes for region and species-list paths
  and 24 hours for taxonomy paths.
\<close>

theorem getCacheTTL_is_ttlFor:
  "getCacheTTL ep = ttlFor ep
   \<and> getCacheTTL (''/data/obs/'' @ rest) = 5 * 60 * 1000
   \<and> getCacheTTL (''/ref/hotspot/'' @ rest) = 30 * 60 * 1000
   \<and> getCacheTTL (''/ref/region/'' @ rest) = 60 * 60 * 1000
   \<and> getCacheTTL (''/product/spplist/'' @ rest) = 60 * 60 * 1000
   \<and> getCacheTTL (''/ref/taxonomy/'' @ rest) = 24 * 60 * 60 * 1000
   \<and> ttlFor [] = 5 * 60 * 1000"
  by (simp add: getCacheTTL_def ttlFor_def CACHE_TTL_def CACHE_TTL_default_def
        ttl_table_def minutes_def hours_def)

section \<open>Rate limiter: the fixed window\<close>

lemma RATE_LIMIT_simps [simp]:
  "windowMs RATE_LIMIT = 60000" "maxRequests RATE_LIMIT = 100"
  by (simp_all add: RATE_LIMIT_def)

text \<open>A call that finds no record, or a record whose reset time has passed,
  opens a window.\<close>

lemma checkRateLimit_new_window:
  assumes "rl ip = None \<or> (\<exists>r. rl ip = Some r \<and> resetTime r < now)"
  shows "checkRateLimit now rl ip =
           (\<lparr>allowed = True, remaining = maxRequests RATE_LIMIT - 1,
             check_resetTime = now + windowMs RATE_LIMIT\<rparr>,
            rl(ip \<mapsto> \<lparr>count = 1, resetTime = now + windowMs RATE_LIMIT\<rparr>))"
  using assms by (auto simp: checkRateLimit_def Let_def)

text \<open>A call not later than the reset time counts in the open window.\<close>

lemma checkRateLimit_same_window:
  assumes "rl ip = Some r" and "now \<le> resetTime r"
  shows "checkRateLimit now rl ip =
           (\<lparr>allowed = (count r + 1 \<le> maxRequests RATE_LIMIT),
             remaining = max 0 (maxRequests RATE_LIMIT - (count r + 1)),
             check_resetTime = resetTime r\<rparr>,
            rl(ip \<mapsto> r\<lparr>count := count r + 1\<rparr>))"
  using assms by (simp add: checkRateLimit_def Let_def)

lemma checkRateLimit_other_client:
  "ip' \<noteq> ip \<Longrightarrow> snd (checkRateLimit now rl ip) ip' = rl ip'"
  by (simp add: checkRateLimit_def Let_def)

lemma admits_same_window:
  assumes "rl ip = Some r" and "\<forall>t \<in> set ts. t \<le> resetTime r"
  shows "snd (admits rl ip ts) ip = Some (r\<lparr>count := count r + int (length ts)\<rparr>)"
  using assms
proof (induction ts arbitrary: rl r)
  case Nil
  then show ?case by simp
next
  case (Cons t ts)
  let ?r = "r\<lparr>count := count r + 1\<rparr>"
  have step: "checkRateLimit t rl ip =
      (\<lparr>allowed = (count r + 1 \<le> maxRequests RATE_LIMIT),
        remaining = max 0 (maxRequests RATE_LIMIT - (count r + 1)),
        check_resetTime = resetTime r\<rparr>, rl(ip \<mapsto> ?r))"
    using Cons.prems by (intro checkRateLimit_same_window) auto
  have "snd (admits (rl(ip \<mapsto> ?r)) ip ts) ip = Some (?r\<lparr>count := count ?r + int (length ts)\<rparr>)"
    using Cons.prems by (intro Cons.IH) auto
  then show ?case
    by (simp add: step split_beta)
qed

lemma admits_new_window:
  assumes "rl ip = None \<or> (\<exists>r. rl ip = Some r \<and> resetTime r < t1)"
    and "\<forall>t \<in> set ts. t \<le> t1 + windowMs RATE_LIMIT"
  shows "snd (admits rl ip (t1 # ts)) ip =
           Some \<lparr>count = 1 + int (length ts), resetTime = t1 + windowMs RATE_LIMIT\<rparr>"
proof -
  let ?r = "\<lparr>count = 1, resetTime = t1 + windowMs RATE_LIMIT\<rparr>"
  have "snd (admits (rl(ip \<mapsto> ?r)) ip ts) ip = Some (?r\<lparr>count := count ?r + int (length ts)\<rparr>)"
    using assms(2) by (intro admits_same_window) auto
  moreover have "checkRateLimit t1 rl ip =
      (\<lparr>allowed = True, remaining = maxRequests RATE_LIMIT - 1,
        check_resetTime = t1 + windowMs RATE_LIMIT\<rparr>, rl(ip \<mapsto> ?r))"
    using assms(1) by (rule checkRateLimit_new_window)
  ultimately show ?thesis
    by (simp add: split_beta)
qed

text \<open>
  C2.  With \<open>N = maxRequests\<close> and \<open>W = windowMs\<close>, for every client key: let
  the call at \<open>t1\<close> open a window (the client has no record, or its reset time
  has passed) and let every later call come no later than \<open>t1 + W\<close>.  Then the
  counter counts every call, the rejected ones too, a call is allowed exactly
  when the counter it reaches is at most \<open>N\<close>, and so call \<open>N + 1\<close> is
  rejected.  And a call that comes after the reset time of the client's
  record is allowed with \<open>remaining = N - 1\<close>.
\<close>

theorem rate_limit_window:
  "((rl ip = None \<or> (\<exists>r. rl ip = Some r \<and> resetTime r < t1)) \<and>
    (\<forall>t \<in> set (ts @ [t']). t \<le> t1 + windowMs RATE_LIMIT)
    \<longrightarrow> (case checkRateLimit t' (snd (admits rl ip (t1 # ts))) ip of
          (res, rl') \<Rightarrow>
            map_option count (rl' ip) = Some (int (length (t1 # ts)) + 1) \<and>
            allowed res = (int (length (t1 # ts)) + 1 \<le> maxRequests RATE_LIMIT) \<and>
            (int (length (t1 # ts)) = maxRequests RATE_LIMIT \<longrightarrow> \<not> allowed res)))
   \<and> (rl2 ip2 = Some r2 \<and> resetTime r2 < now
        \<longrightarrow> (case checkRateLimit now rl2 ip2 of
              (res, rl') \<Rightarrow> allowed res \<and> remaining res = maxRequests RATE_LIMIT - 1))"
proof (intro conjI impI)
  assume "(rl ip = None \<or> (\<exists>r. rl ip = Some r \<and> resetTime r < t1)) \<and>
          (\<forall>t \<in> set (ts @ [t']). t \<le> t1 + windowMs RATE_LIMIT)"
  then have fresh: "rl ip = None \<or> (\<exists>r. rl ip = Some r \<and> resetTime r < t1)"
    and win: "\<forall>t \<in> set ts. t \<le> t1 + windowMs RATE_LIMIT"
    and last: "t' \<le> t1 + windowMs RATE_LIMIT"
    by auto
  let ?rl = "snd (admits rl ip (t1 # ts))"
  let ?n = "1 + int (length ts)"
  have st: "?rl ip = Some \<lparr>count = ?n, resetTime = t1 + windowMs RATE_LIMIT\<rparr>"
    using fresh win by (rule admits_new_window)
  have "checkRateLimit t' ?rl ip =
      (\<lparr>allowed = (?n + 1 \<le> maxRequests RATE_LIMIT),
        remaining = max 0 (maxRequests RATE_LIMIT - (?n + 1)),
        check_resetTime = t1 + windowMs RATE_LIMIT\<rparr>,
       ?rl(ip \<mapsto> \<lparr>count = ?n + 1, resetTime = t1 + windowMs RATE_LIMIT\<rparr>))"
    using checkRateLimit_same_window [of ?rl ip _ t', OF st] last by simp
  then show "case checkRateLimit t' ?rl ip of
          (res, rl') \<Rightarrow>
            map_option count (rl' ip) = Some (int (length (t1 # ts)) + 1) \<and>
            allowed res = (int (length (t1 # ts)) + 1 \<le> maxRequests RATE_LIMIT) \<and>
            (int (length (t1 # ts)) = maxRequests RATE_LIMIT \<longrightarrow> \<not> allowed res)"
    by simp
next
  assume "rl2 ip2 = Some r2 \<and> resetTime r2 < now"
  then show "case checkRateLimit now rl2 ip2 of
          (res, rl') \<Rightarrow> allowed res \<and> remaining res = maxRequests RATE_LIMIT - 1"
    by (simp add: checkRateLimit_new_window)
qed

theorem rate_limit_window_witness:
  "(Map.empty ''203.0.113.7'' = (None :: rate_record option) \<and>
    Max (set (replicate 99 5 @ [60000])) \<le> (0::int) + windowMs RATE_LIMIT \<and>
    int (length (0 # replicate 99 (5::int))) = maxRequests RATE_LIMIT \<and>
    (case checkRateLimit 60000
            (snd (admits Map.empty ''203.0.113.7'' (0 # replicate 99 5))) ''203.0.113.7'' of
       (res, rl') \<Rightarrow> map_option count (rl' ''203.0.113.7'') = Some 101 \<and> \<not> allowed res))
   \<and> (resetTime \<lparr>count = 101, resetTime = 60000\<rparr> < 60001 \<and>
       (case checkRateLimit 60001
               [''203.0.113.7'' \<mapsto> \<lparr>count = 101, resetTime = 60000\<rparr>] ''203.0.113.7'' of
          (res, rl') \<Rightarrow> allowed res \<and> remaining res = 99))"
  using rate_limit_window [of Map.empty "''203.0.113.7''" 0 "replicate 99 5" 60000
          "[''203.0.113.7'' \<mapsto> \<lparr>count = 101, resetTime = 60000\<rparr>]" "''203.0.113.7''"
          "\<lparr>count = 101, resetTime = 60000\<rparr>" 60001]
  by simp

text \<open>
  C10.  Every call of \<^const>\<open>checkRateLimit\<close> returns a \<open>remaining\<close> that is
  not negative.  A rejected call reports \<open>remaining = 0\<close>, and so does the
  call that brings the counter to \<open>maxRequests\<close>, the last one the window
  allows: \<open>remaining = 0\<close> does not imply rejection.
\<close>

theorem checkRateLimit_remaining:
  "(case checkRateLimit now rl ip of
      (res, rl') \<Rightarrow>
        0 \<le> remaining res \<and>
        (\<not> allowed res \<longrightarrow> remaining res = 0) \<and>
        (map_option count (rl' ip) = Some (maxRequests RATE_LIMIT)
           \<longrightarrow> allowed res \<and> remaining res = 0))"
  by (simp add: checkRateLimit_def Let_def)

theorem checkRateLimit_remaining_witness:
  "(case checkRateLimit 1000 [''203.0.113.7'' \<mapsto> \<lparr>count = 100, resetTime = 2000\<rparr>]
           ''203.0.113.7'' of
      (res, rl') \<Rightarrow> \<not> allowed res \<and> remaining res = 0)
   \<and> (case checkRateLimit 1000 [''203.0.113.7'' \<mapsto> \<lparr>count = 99, resetTime = 2000\<rparr>]
             ''203.0.113.7'' of
        (res, rl') \<Rightarrow>
          map_option count (rl' ''203.0.113.7'') = Some (maxRequests RATE_LIMIT) \<and>
          allowed res \<and> remaining res = 0)"
proof -
  have rejected: "\<not> allowed (fst (checkRateLimit 1000
      [''203.0.113.7'' \<mapsto> \<lparr>count = 100, resetTime = 2000\<rparr>] ''203.0.113.7''))"
    by (simp add: checkRateLimit_def Let_def)
  have full: "map_option count (snd (checkRateLimit 1000
      [''203.0.113.7'' \<mapsto> \<lparr>count = 99, resetTime = 2000\<rparr>] ''203.0.113.7'') ''203.0.113.7'')
        = Some (maxRequests RATE_LIMIT)"
    by (simp add: checkRateLimit_def Let_def)
  show ?thesis
    using rejected full
      checkRateLimit_remaining [where now = 1000 and ip = "''203.0.113.7''"
        and rl = "[''203.0.113.7'' \<mapsto> \<lparr>count = 100, resetTime = 2000\<rparr>]"]
      checkRateLimit_remaining [where now = 1000 and ip = "''203.0.113.7''"
        and rl = "[''203.0.113.7'' \<mapsto> \<lparr>count = 99, resetTime = 2000\<rparr>]"]
    by (simp add: split_beta)
qed

section \<open>The paths through the handler\<close>

lemma respond_simps [simp]:
  "status (response (respond code hs b st calls)) = code"
  "res_headers (response (respond code hs b st calls)) = hs"
  "body (response (respond code hs b st calls)) = b"
  "state_after (respond code hs b st calls) = st"
  "upstream_calls (respond code hs b st calls) = calls"
  by (simp_all add: respond_def)

lemma rateLimitHeaders_X_Cache [simp]: "rateLimitHeaders rc ''X-Cache'' = None"
  by (simp add: rateLimitHeaders_def cors_def setHeader_def)

lemma at_allowlist_SomeD:
  assumes "at_allowlist dec env st req = Some d"
  shows "req_method req = ''GET''" and "admitted env st req" and "truthy (EBIRD_API_KEY env)"
    and "\<exists>s. endpoint req = Single s \<and> s \<noteq> [] \<and> dec s = Some d"
  using assms
  by (simp_all add: at_allowlist_def split: if_splits query_value.splits)

text \<open>From the allowlist test on.\<close>

lemma handler_at_allowlist:
  assumes "at_allowlist dec env st req = Some d"
  shows "handler dec env st req =
    (let rateCheck = fst (checkRateLimit (now_checkRateLimit env) (rateLimits st)
                            (clientIP (headers req)));
         st1 = st\<lparr>rateLimits := counted env st req\<rparr>;
         hs = rateLimitHeaders rateCheck;
         cachedEntry = cache st (getCacheKey d)
     in if \<not> isAllowed d then
          respond 403 hs
            (Object [(''error'', Str ''Endpoint not allowed''), (''allowed'', Strs ALLOWED_PATHS)])
            st1 []
        else if cachedEntry \<noteq> None \<and> now_lookup env < expiry (the cachedEntry) then
          respond 200
            (setHeader ''Cache-Control'' (HStr ''s-maxage=60, stale-while-revalidate=300'')
               (setHeader ''X-Cache'' (HStr ''HIT'') hs))
            (Payload (data (the cachedEntry))) st1 []
        else fetchFromEbird env st1 hs d (the (EBIRD_API_KEY env)))"
proof -
  obtain s where s: "endpoint req = Single s" "s \<noteq> []" "dec s = Some d"
    using at_allowlist_SomeD(4) [OF assms] by blast
  have adm: "allowed (fst (checkRateLimit (now_checkRateLimit env) (rateLimits st)
                             (clientIP (headers req))))"
    using at_allowlist_SomeD(2) [OF assms] by (simp add: admitted_def)
  show ?thesis
    using at_allowlist_SomeD(1,3) [OF assms] s adm
    by (simp add: handler_def counted_def Let_def split_beta)
qed

text \<open>The exits before the allowlist test.\<close>

lemma handler_before_allowlist:
  assumes "at_allowlist dec env st req = None"
  shows "upstream_calls (handler dec env st req) = []
       \<and> state_after (handler dec env st req) =
           (if req_method req = ''GET'' then st\<lparr>rateLimits := counted env st req\<rparr> else st)
       \<and> body_field ''error'' (body (response (handler dec env st req)))
           \<noteq> Some (Str ''Endpoint not allowed'')
       \<and> (body_field ''error'' (body (response (handler dec env st req)))
             = Some (Str ''Invalid endpoint encoding'') \<longrightarrow> req_method req = ''GET'')
       \<and> res_headers (response (handler dec env st req)) ''X-Cache'' = None"
proof (cases "req_method req = ''GET''")
  case False
  then show ?thesis
    by (simp add: handler_def body_field_def cors_def setHeader_def)
next
  case get: True
  show ?thesis
  proof (cases "admitted env st req")
    case False
    then show ?thesis using get
      by (simp add: handler_def admitted_def counted_def Let_def split_beta body_field_def)
  next
    case adm: True
    show ?thesis
    proof (cases "endpoint req")
      case Absent
      then show ?thesis using get adm
        by (simp add: handler_def admitted_def counted_def Let_def split_beta body_field_def)
    next
      case (Multiple xs)
      then show ?thesis using get adm
        by (simp add: handler_def admitted_def counted_def Let_def split_beta body_field_def)
    next
      case (Single s)
      then have "s = [] \<or> \<not> truthy (EBIRD_API_KEY env) \<or> dec s = None"
        using assms get adm by (auto simp: at_allowlist_def split: if_splits)
      then show ?thesis using get adm Single
        by (auto simp: handler_def admitted_def counted_def Let_def split_beta body_field_def)
    qed
  qed
qed

lemma fetchFromEbird_calls:
  "upstream_calls (fetchFromEbird env st hs d k) = [(ebirdUrl d, k)]"
  by (simp add: fetchFromEbird_def Let_def split: sum.splits)

lemma fetchFromEbird_error_field:
  "body_field ''error'' (body (response (fetchFromEbird env st hs d k)))
     \<noteq> Some (Str ''Endpoint not allowed'')"
  "body_field ''error'' (body (response (fetchFromEbird env st hs d k)))
     \<noteq> Some (Str ''Invalid endpoint encoding'')"
  by (simp_all add: fetchFromEbird_def Let_def body_field_def split: sum.splits)

lemma handler_calls:
  "upstream_calls (handler dec env st req) =
     (case at_allowlist dec env st req of
        None \<Rightarrow> []
      | Some d \<Rightarrow>
          if isAllowed d \<and>
             \<not> (\<exists>e. cache st (getCacheKey d) = Some e \<and> now_lookup env < expiry e)
          then [(ebirdUrl d, the (EBIRD_API_KEY env))] else [])"
proof (cases "at_allowlist dec env st req")
  case None
  then show ?thesis by (simp add: handler_before_allowlist)
next
  case (Some d)
  then show ?thesis
    by (auto simp: handler_at_allowlist Let_def fetchFromEbird_calls)
qed

lemma allowedPaths_eq: "allowedPaths = ALLOWED_PATHS"
  by (simp add: allowedPaths_def ALLOWED_PATHS_def)

lemma handler_ebird_calls:
  assumes "snd (handler_ebird dec env req) \<noteq> []"
  shows "\<exists>d. dec (to_String (endpoint req)) = Some d \<and> isAllowed d"
  using assms
  by (auto simp: handler_ebird_def Let_def isAllowed_def allowedPaths_eq
      split: if_splits option.splits)

section \<open>Allowlist\<close>

text \<open>
  C1, as the code has it.  The handler of \<^verbatim>\<open>ebird-enhanced.js\<close> tests the
  allowlist after the method, the rate limiter, the presence of the parameter
  and the configured key; the handler of \<^verbatim>\<open>ebird.js\<close> after the method,
  the parameter and the key.  A request that gets to the test with a decoded
  endpoint that starts with none of the seven prefixes is answered 403 with
  the list of prefixes in the body (under \<^verbatim>\<open>allowed\<close>, respectively
  \<^verbatim>\<open>allowedPaths\<close>), and no upstream call is made.  And whatever the exit, a
  request whose endpoint decodes to such a string makes no upstream call.
\<close>

theorem bad_path_rejected:
  "(at_allowlist dec env st req = Some d \<and> \<not> isAllowed d \<longrightarrow>
      status (response (handler dec env st req)) = 403 \<and>
      body (response (handler dec env st req)) =
        Object [(''error'', Str ''Endpoint not allowed''), (''allowed'', Strs ALLOWED_PATHS)] \<and>
      upstream_calls (handler dec env st req) = [])
   \<and> (endpoint req = Single s \<and> dec s = Some d \<and> \<not> isAllowed d \<longrightarrow>
        upstream_calls (handler dec env st req) = [])
   \<and> (req_method req = ''GET'' \<and> truthy (EBIRD_API_KEY env) \<and>
       endpoint req \<noteq> Absent \<and> endpoint req \<noteq> Single [] \<and>
       dec (to_String (endpoint req)) = Some d \<and> \<not> isAllowed d \<longrightarrow>
        status (fst (handler_ebird dec env req)) = 403 \<and>
        body (fst (handler_ebird dec env req)) =
          Object [(''error'', Str ''Endpoint not allowed''), (''allowedPaths'', Strs ALLOWED_PATHS)] \<and>
        snd (handler_ebird dec env req) = [])
   \<and> (dec (to_String (endpoint req)) = Some d \<and> \<not> isAllowed d \<longrightarrow>
        snd (handler_ebird dec env req) = [])"
proof (intro conjI impI)
  assume a: "at_allowlist dec env st req = Some d \<and> \<not> isAllowed d"
  then show "status (response (handler dec env st req)) = 403"
    and "body (response (handler dec env st req)) =
        Object [(''error'', Str ''Endpoint not allowed''), (''allowed'', Strs ALLOWED_PATHS)]"
    and "upstream_calls (handler dec env st req) = []"
    by (simp_all add: handler_at_allowlist Let_def)
next
  assume a: "endpoint req = Single s \<and> dec s = Some d \<and> \<not> isAllowed d"
  then have "at_allowlist dec env st req = None \<or> at_allowlist dec env st req = Some d"
    by (simp add: at_allowlist_def)
  then show "upstream_calls (handler dec env st req) = []"
    using a by (auto simp: handler_calls)
next
  assume a: "req_method req = ''GET'' \<and> truthy (EBIRD_API_KEY env) \<and>
       endpoint req \<noteq> Absent \<and> endpoint req \<noteq> Single [] \<and>
       dec (to_String (endpoint req)) = Some d \<and> \<not> isAllowed d"
  then show "status (fst (handler_ebird dec env req)) = 403"
    and "body (fst (handler_ebird dec env req)) =
          Object [(''error'', Str ''Endpoint not allowed''), (''allowedPaths'', Strs ALLOWED_PATHS)]"
    and "snd (handler_ebird dec env req) = []"
    by (simp_all add: handler_ebird_def Let_def isAllowed_def allowedPaths_eq)
next
  assume a: "dec (to_String (endpoint req)) = Some d \<and> \<not> isAllowed d"
  then show "snd (handler_ebird dec env req) = []"
    using handler_ebird_calls [of dec env req] by auto
qed

lemma example_at_allowlist:
  "at_allowlist Some (at_time t reply) cold_start (get_request ''/unsafe/path'') = Some ''/unsafe/path''"
  by (simp add: at_allowlist_def get_request_def at_time_def admitted_def cold_start_def
        checkRateLimit_def Let_def truthy_def)

lemma unsafe_not_allowed: "\<not> isAllowed ''/unsafe/path''"
  by (simp add: isAllowed_def ALLOWED_PATHS_def)

theorem bad_path_rejected_witness:
  "at_allowlist Some (at_time 1000 sightings) cold_start (get_request ''/unsafe/path'')
     = Some ''/unsafe/path''
   \<and> \<not> isAllowed ''/unsafe/path''
   \<and> status (response (handler Some (at_time 1000 sightings) cold_start
                          (get_request ''/unsafe/path''))) = 403
   \<and> body (response (handler Some (at_time 1000 sightings) cold_start
                          (get_request ''/unsafe/path''))) =
        Object [(''error'', Str ''Endpoint not allowed''), (''allowed'', Strs ALLOWED_PATHS)]
   \<and> upstream_calls (handler Some (at_time 1000 sightings) cold_start
                          (get_request ''/unsafe/path'')) = []
   \<and> status (fst (handler_ebird Some (at_time 1000 sightings) (get_request ''/unsafe/path''))) = 403
   \<and> snd (handler_ebird Some (at_time 1000 sightings) (get_request ''/unsafe/path'')) = []"
proof -
  have h: "req_method (get_request ''/unsafe/path'') = ''GET''"
    "truthy (EBIRD_API_KEY (at_time 1000 sightings))"
    "endpoint (get_request ''/unsafe/path'') = Single ''/unsafe/path''"
    "to_String (endpoint (get_request ''/unsafe/path'')) = ''/unsafe/path''"
    by (simp_all add: get_request_def at_time_def truthy_def to_String_def)
  show ?thesis
    using bad_path_rejected [of Some "at_time 1000 sightings" cold_start
            "get_request ''/unsafe/path''" "''/unsafe/path''" "''/unsafe/path''"]
      example_at_allowlist [of 1000 sightings] unsafe_not_allowed h
    by simp
qed

text \<open>
  C1 as stated fails: a request for \<^verbatim>\<open>/unsafe/path\<close> from a client that has
  used its 100 requests is answered 429 by \<^verbatim>\<open>ebird-enhanced.js\<close>, without the
  list of prefixes, and \<^verbatim>\<open>ebird.js\<close> answers 500 when the key is not
  configured.
\<close>

theorem bad_path_other_exits:
  "endpoint (get_request ''/unsafe/path'') = Single ''/unsafe/path''
   \<and> \<not> isAllowed ''/unsafe/path''
   \<and> status (response (handler Some (at_time 30000 sightings) (counted_to 100 60000)
                          (get_request ''/unsafe/path''))) = 429
   \<and> body_field ''allowed'' (body (response (handler Some (at_time 30000 sightings)
                          (counted_to 100 60000) (get_request ''/unsafe/path'')))) = None
   \<and> status (fst (handler_ebird Some ((at_time 30000 sightings)\<lparr>EBIRD_API_KEY := None\<rparr>)
                          (get_request ''/unsafe/path''))) = 500"
  by (simp add: handler_def handler_ebird_def get_request_def at_time_def counted_to_def
        clientIP_def truthy_def checkRateLimit_def Let_def isAllowed_def ALLOWED_PATHS_def
        body_field_def)


lemma counted_count:
  "map_option count (counted env st req (clientIP (headers req))) =
     Some (case rateLimits st (clientIP (headers req)) of
             None \<Rightarrow> 1
           | Some r \<Rightarrow> if resetTime r < now_checkRateLimit env then 1 else count r + 1)"
  by (simp add: counted_def checkRateLimit_def Let_def split: option.splits)

lemma body_field_Payload:
  "body_field name (Payload p) = None"
  by (simp add: body_field_def)

section \<open>Order of the rate limiter and the validation\<close>

text \<open>
  C6, as the code has it.  The handler runs the rate limiter (line 107) before
  it decodes the endpoint and tests the allowlist (lines 140 to 155).  So for
  every request that exits with InvalidEncoding or PathNotAllowed the client
  has been counted: the rate map is the one \<^const>\<open>checkRateLimit\<close> returned,
  in which the client's counter is 1 when the client had no record or its
  window had elapsed, and one more than before otherwise.  The cache is
  unchanged and no upstream call is made.
\<close>

theorem validation_after_rate_limiter:
  "body_field ''error'' (body (response (handler dec env st req))) = Some (Str ''Invalid endpoint encoding'')
   \<or> body_field ''error'' (body (response (handler dec env st req))) = Some (Str ''Endpoint not allowed'')
   \<longrightarrow>
     rateLimits (state_after (handler dec env st req)) = counted env st req
     \<and> map_option count (rateLimits (state_after (handler dec env st req)) (clientIP (headers req))) =
         Some (case rateLimits st (clientIP (headers req)) of
                 None \<Rightarrow> 1
               | Some r \<Rightarrow> if resetTime r < now_checkRateLimit env then 1 else count r + 1)
     \<and> cache (state_after (handler dec env st req)) = cache st
     \<and> upstream_calls (handler dec env st req) = []"
proof
  let ?out = "handler dec env st req"
  let ?err = "body_field ''error'' (body (response ?out))"
  assume exit: "?err = Some (Str ''Invalid endpoint encoding'') \<or> ?err = Some (Str ''Endpoint not allowed'')"
  have st: "state_after ?out = st\<lparr>rateLimits := counted env st req\<rparr> \<and> upstream_calls ?out = []"
  proof (cases "at_allowlist dec env st req")
    case None
    from handler_before_allowlist [OF None] exit show ?thesis by auto
  next
    case (Some d)
    show ?thesis
    proof (cases "isAllowed d")
      case False
      then show ?thesis by (simp add: handler_at_allowlist [OF Some] Let_def)
    next
      case True
      then have "?err \<noteq> Some (Str ''Invalid endpoint encoding'') \<and> ?err \<noteq> Some (Str ''Endpoint not allowed'')"
        by (simp add: handler_at_allowlist [OF Some] Let_def fetchFromEbird_error_field body_field_Payload)
      with exit show ?thesis by simp
    qed
  qed
  then show "rateLimits (state_after ?out) = counted env st req
     \<and> map_option count (rateLimits (state_after ?out) (clientIP (headers req))) =
         Some (case rateLimits st (clientIP (headers req)) of
                 None \<Rightarrow> 1
               | Some r \<Rightarrow> if resetTime r < now_checkRateLimit env then 1 else count r + 1)
     \<and> cache (state_after ?out) = cache st
     \<and> upstream_calls ?out = []"
    by (simp add: counted_count)
qed

text \<open>
  C6 as stated fails: a first request, for \<^verbatim>\<open>/unsafe/path\<close>, exits with
  PathNotAllowed and leaves a record with count 1 for a client that had none;
  a request with the endpoint \<^verbatim>\<open>%\<close>, which does not decode, exits with
  InvalidEncoding and takes the client's counter from 7 to 8.
\<close>

theorem validation_counts_the_request:
  "body_field ''error'' (body (response (handler Some (at_time 1000 sightings) cold_start
       (get_request ''/unsafe/path'')))) = Some (Str ''Endpoint not allowed'')
   \<and> status (response (handler Some (at_time 1000 sightings) cold_start
       (get_request ''/unsafe/path''))) = 403
   \<and> rateLimits (cold_start :: string state) ''unknown'' = None
   \<and> rateLimits (state_after (handler Some (at_time 1000 sightings) cold_start
       (get_request ''/unsafe/path''))) ''unknown'' = Some \<lparr>count = 1, resetTime = 61000\<rparr>
   \<and> body_field ''error'' (body (response (handler (Some(''%'' := None)) (at_time 1000 sightings)
       (counted_to 7 2000) (get_request ''%'')))) = Some (Str ''Invalid endpoint encoding'')
   \<and> rateLimits (state_after (handler (Some(''%'' := None)) (at_time 1000 sightings)
       (counted_to 7 2000) (get_request ''%''))) ''unknown'' = Some \<lparr>count = 8, resetTime = 2000\<rparr>"
  by (simp add: handler_def get_request_def at_time_def counted_to_def cold_start_def
        clientIP_def truthy_def checkRateLimit_def Let_def isAllowed_def ALLOWED_PATHS_def
        body_field_def)

theorem validation_after_rate_limiter_witness:
  "body_field ''error'' (body (response (handler Some (at_time 1000 sightings) (counted_to 7 2000)
       (get_request ''/unsafe/path'')))) = Some (Str ''Endpoint not allowed'')
   \<and> map_option count (rateLimits (state_after (handler Some (at_time 1000 sightings) (counted_to 7 2000)
       (get_request ''/unsafe/path''))) ''unknown'') = Some 8
   \<and> cache (state_after (handler Some (at_time 1000 sightings) (counted_to 7 2000)
       (get_request ''/unsafe/path''))) = Map.empty"
proof -
  have exit: "body_field ''error'' (body (response (handler Some (at_time 1000 sightings)
       (counted_to 7 2000) (get_request ''/unsafe/path'')))) = Some (Str ''Endpoint not allowed'')"
    by (simp add: handler_def get_request_def at_time_def counted_to_def
        clientIP_def truthy_def checkRateLimit_def Let_def isAllowed_def ALLOWED_PATHS_def
        body_field_def)
  have ip: "clientIP (headers (get_request ''/unsafe/path'')) = ''unknown''"
    by (simp add: get_request_def clientIP_def truthy_def)
  let ?out = "handler Some (at_time 1000 sightings) (counted_to 7 2000)
                (get_request ''/unsafe/path'')"
  from exit validation_after_rate_limiter [of Some "at_time 1000 sightings" "counted_to 7 2000"
            "get_request ''/unsafe/path''"]
  have "map_option count (rateLimits (state_after ?out)
            (clientIP (headers (get_request ''/unsafe/path'')))) =
          Some (case rateLimits (counted_to 7 2000 :: string state)
                       (clientIP (headers (get_request ''/unsafe/path''))) of
                  None \<Rightarrow> 1
                | Some r \<Rightarrow> if resetTime r < now_checkRateLimit (at_time 1000 sightings)
                            then 1 else count r + 1)"
    and "cache (state_after ?out) = cache (counted_to 7 2000)"
    by blast+
  then show ?thesis
    using exit by (simp add: ip counted_to_def at_time_def)
qed


section \<open>The retry hint of a rate-limited response\<close>

lemma handler_rate_limited:
  assumes "req_method req = ''GET''" and "\<not> admitted env st req"
  shows "handler dec env st req =
     (let rateCheck = fst (checkRateLimit (now_checkRateLimit env) (rateLimits st)
                             (clientIP (headers req)))
      in respond 429 (rateLimitHeaders rateCheck)
           (Object [(''error'', Str ''Rate limit exceeded''),
                    (''retryAfter'',
                     Num \<lceil>real_of_int (check_resetTime rateCheck - now_retryAfter env) / 1000\<rceil>)])
           (st\<lparr>rateLimits := counted env st req\<rparr>) [])"
  using assms by (simp add: handler_def admitted_def counted_def Let_def split_beta)

lemma check_resetTime_bounds:
  "now \<le> check_resetTime (fst (checkRateLimit now rl ip))"
  "reset_within_window now rl ip \<Longrightarrow>
     check_resetTime (fst (checkRateLimit now rl ip)) \<le> now + windowMs RATE_LIMIT"
  by (auto simp: checkRateLimit_def reset_within_window_def Let_def split: option.splits)

lemma ceiling_thousandth_pos: "(0 < \<lceil>real_of_int x / 1000\<rceil>) = (0 < x)"
  by (simp add: less_ceiling_iff)

lemma ceiling_thousandth_le: "(\<lceil>real_of_int x / 1000\<rceil> * 1000 \<le> 60000) = (x \<le> 60000)"
proof -
  have "(\<lceil>real_of_int x / 1000\<rceil> * 1000 \<le> 60000) = (\<lceil>real_of_int x / 1000\<rceil> \<le> 60)"
    by auto
  also have "\<dots> = (real_of_int x / 1000 \<le> 60)"
    by (simp add: ceiling_le_iff)
  also have "\<dots> = (x \<le> 60000)"
    by auto
  finally show ?thesis .
qed

lemma ceiling_thousandth_nonneg: "0 \<le> x \<Longrightarrow> 0 \<le> \<lceil>real_of_int x / 1000\<rceil>"
  by (simp add: ceiling_le_iff le_ceiling_iff)

text \<open>
  C8, as the code has it.  A GET request that the rate limiter rejects is
  answered 429 with \<open>retryAfter = \<lceil>(resetTime - now) / 1000\<rceil>\<close>, \<open>now\<close> being
  the clock reading of line 115.  The hint is strictly positive exactly when
  that reading is still before the reset time, and it is not negative when
  the reading has not passed the reset time.  It is at most the window
  length (60 seconds) when the clock has not run backwards: the stored reset
  time is at most one window ahead of the reading of \<^const>\<open>checkRateLimit\<close>,
  which is not after the reading of line 115.
\<close>

theorem retryAfter_bounds:
  "req_method req = ''GET'' \<and> \<not> admitted env st req \<longrightarrow>
     (let resetAt = check_resetTime (fst (checkRateLimit (now_checkRateLimit env) (rateLimits st)
                                           (clientIP (headers req))));
          retryAfter = \<lceil>real_of_int (resetAt - now_retryAfter env) / 1000\<rceil>
      in status (response (handler dec env st req)) = 429
       \<and> body_field ''retryAfter'' (body (response (handler dec env st req))) = Some (Num retryAfter)
       \<and> (0 < retryAfter) = (now_retryAfter env < resetAt)
       \<and> (now_retryAfter env \<le> resetAt \<longrightarrow> 0 \<le> retryAfter)
       \<and> (reset_within_window (now_checkRateLimit env) (rateLimits st) (clientIP (headers req))
            \<and> now_checkRateLimit env \<le> now_retryAfter env
          \<longrightarrow> retryAfter * 1000 \<le> windowMs RATE_LIMIT))"
proof
  assume a: "req_method req = ''GET'' \<and> \<not> admitted env st req"
  let ?resetAt = "check_resetTime (fst (checkRateLimit (now_checkRateLimit env) (rateLimits st)
                                           (clientIP (headers req))))"
  let ?k = "\<lceil>real_of_int (?resetAt - now_retryAfter env) / 1000\<rceil>"
  have h: "handler dec env st req =
      respond 429 (rateLimitHeaders (fst (checkRateLimit (now_checkRateLimit env) (rateLimits st)
                                           (clientIP (headers req)))))
        (Object [(''error'', Str ''Rate limit exceeded''), (''retryAfter'', Num ?k)])
        (st\<lparr>rateLimits := counted env st req\<rparr>) []"
    using a by (simp add: handler_rate_limited Let_def)
  have pos: "(0 < ?k) = (now_retryAfter env < ?resetAt)"
    by (simp add: ceiling_thousandth_pos)
  have nonneg: "now_retryAfter env \<le> ?resetAt \<longrightarrow> 0 \<le> ?k"
    by (simp add: ceiling_thousandth_nonneg)
  have upper: "reset_within_window (now_checkRateLimit env) (rateLimits st) (clientIP (headers req))
            \<and> now_checkRateLimit env \<le> now_retryAfter env
          \<longrightarrow> ?k * 1000 \<le> windowMs RATE_LIMIT"
  proof
    assume b: "reset_within_window (now_checkRateLimit env) (rateLimits st) (clientIP (headers req))
            \<and> now_checkRateLimit env \<le> now_retryAfter env"
    then have "reset_within_window (now_checkRateLimit env) (rateLimits st)
                 (clientIP (headers req))"
      by simp
    then have "?resetAt \<le> now_checkRateLimit env + windowMs RATE_LIMIT"
      by (rule check_resetTime_bounds(2))
    with b have "?resetAt - now_retryAfter env \<le> 60000" by simp
    then show "?k * 1000 \<le> windowMs RATE_LIMIT"
      by (simp only: RATE_LIMIT_simps ceiling_thousandth_le)
  qed
  show "(let resetAt = ?resetAt;
          retryAfter = \<lceil>real_of_int (resetAt - now_retryAfter env) / 1000\<rceil>
      in status (response (handler dec env st req)) = 429
       \<and> body_field ''retryAfter'' (body (response (handler dec env st req))) = Some (Num retryAfter)
       \<and> (0 < retryAfter) = (now_retryAfter env < resetAt)
       \<and> (now_retryAfter env \<le> resetAt \<longrightarrow> 0 \<le> retryAfter)
       \<and> (reset_within_window (now_checkRateLimit env) (rateLimits st) (clientIP (headers req))
            \<and> now_checkRateLimit env \<le> now_retryAfter env
          \<longrightarrow> retryAfter * 1000 \<le> windowMs RATE_LIMIT))"
    unfolding Let_def using pos nonneg upper by (simp add: h body_field_def)
qed

text \<open>
  C8 as stated fails: the window is reset only when \<open>now > resetTime\<close>, so a
  request that arrives at the very millisecond \<open>resetTime\<close> of a window in
  which the client has made its 100 requests is counted in that window and
  rejected, with \<open>retryAfter = 0\<close>.
\<close>

theorem retryAfter_zero:
  "status (response (handler Some (at_time 60000 sightings) (counted_to 100 60000)
             (get_request ''/data/obs/US-MA/recent''))) = 429
   \<and> body_field ''retryAfter'' (body (response (handler Some (at_time 60000 sightings)
             (counted_to 100 60000) (get_request ''/data/obs/US-MA/recent'')))) = Some (Num 0)"
  by (simp add: handler_def get_request_def at_time_def counted_to_def
        clientIP_def truthy_def checkRateLimit_def Let_def body_field_def)

theorem retryAfter_bounds_witness:
  "req_method (get_request ''/data/obs/US-MA/recent'') = ''GET''
   \<and> \<not> admitted (at_time 30000 sightings) (counted_to 100 60000)
          (get_request ''/data/obs/US-MA/recent'')
   \<and> status (response (handler Some (at_time 30000 sightings) (counted_to 100 60000)
             (get_request ''/data/obs/US-MA/recent''))) = 429
   \<and> body_field ''retryAfter'' (body (response (handler Some (at_time 30000 sightings)
             (counted_to 100 60000) (get_request ''/data/obs/US-MA/recent'')))) = Some (Num 30)"
proof -
  have ip: "clientIP (headers (get_request ''/data/obs/US-MA/recent'')) = ''unknown''"
    by (simp add: get_request_def clientIP_def truthy_def)
  have chk: "checkRateLimit 30000 [''unknown'' \<mapsto> \<lparr>count = 100, resetTime = 60000\<rparr>] ''unknown''
     = (\<lparr>allowed = False, remaining = 0, check_resetTime = 60000\<rparr>,
        [''unknown'' \<mapsto> \<lparr>count = 101, resetTime = 60000\<rparr>])"
    by (simp add: checkRateLimit_def Let_def)
  have hyp: "req_method (get_request ''/data/obs/US-MA/recent'') = ''GET''
     \<and> \<not> admitted (at_time 30000 sightings) (counted_to 100 60000)
          (get_request ''/data/obs/US-MA/recent'')"
    by (simp add: admitted_def ip at_time_def counted_to_def chk) (simp add: get_request_def)
  have win: "reset_within_window (now_checkRateLimit (at_time 30000 sightings))
         (rateLimits (counted_to 100 60000 :: string state))
         (clientIP (headers (get_request ''/data/obs/US-MA/recent'')))
       \<and> now_checkRateLimit (at_time 30000 sightings) \<le> now_retryAfter (at_time 30000 sightings)"
    by (simp add: reset_within_window_def ip at_time_def counted_to_def)
  show ?thesis
    using hyp win retryAfter_bounds [of "get_request ''/data/obs/US-MA/recent''"
            "at_time 30000 sightings" "counted_to 100 60000" Some]
    by (simp add: ip at_time_def counted_to_def chk Let_def)
qed


text \<open>The hypothesis on the stored reset time holds of every state the handler
  can reach from a cold start under a clock that does not run backwards.\<close>

lemma reset_within_window_cold_start:
  "reset_within_window t (rateLimits cold_start) ip"
  by (simp add: reset_within_window_def cold_start_def)

lemma reset_within_window_mono:
  "t \<le> t' \<Longrightarrow> reset_within_window t rl ip \<Longrightarrow> reset_within_window t' rl ip"
  by (simp add: reset_within_window_def split: option.splits)

lemma reset_within_window_checkRateLimit:
  "reset_within_window now rl ip' \<Longrightarrow>
     reset_within_window now (snd (checkRateLimit now rl ip)) ip'"
  by (auto simp: reset_within_window_def checkRateLimit_def Let_def split: option.splits)

lemma reset_within_window_cleanup:
  "reset_within_window t rl ip \<Longrightarrow> reset_within_window t (cleanupRateLimits t' rl) ip"
  by (simp add: reset_within_window_def cleanupRateLimits_def split: option.splits)

lemma fetchFromEbird_rateLimits:
  "rateLimits (state_after (fetchFromEbird env st hs d k)) = rateLimits st
   \<or> rateLimits (state_after (fetchFromEbird env st hs d k))
       = cleanupRateLimits (now_cleanupRateLimits env) (rateLimits st)"
  by (simp add: fetchFromEbird_def Let_def split: sum.splits)

lemma handler_rateLimits:
  "rateLimits (state_after (handler dec env st req)) = rateLimits st
   \<or> rateLimits (state_after (handler dec env st req)) = counted env st req
   \<or> rateLimits (state_after (handler dec env st req))
       = cleanupRateLimits (now_cleanupRateLimits env) (counted env st req)"
proof (cases "at_allowlist dec env st req")
  case None
  from handler_before_allowlist [OF None] show ?thesis by auto
next
  case (Some d)
  let ?st1 = "st\<lparr>rateLimits := counted env st req\<rparr>"
  let ?hs = "rateLimitHeaders (fst (checkRateLimit (now_checkRateLimit env) (rateLimits st)
                                      (clientIP (headers req))))"
  from fetchFromEbird_rateLimits [of env ?st1 ?hs d "the (EBIRD_API_KEY env)"]
  show ?thesis
    by (auto simp: handler_at_allowlist [OF Some] Let_def)
qed

lemma reset_within_window_handler:
  assumes "reset_within_window (now_checkRateLimit env) (rateLimits st) ip"
  shows "reset_within_window (now_checkRateLimit env)
           (rateLimits (state_after (handler dec env st req))) ip"
proof -
  have "reset_within_window (now_checkRateLimit env) (counted env st req) ip"
    unfolding counted_def using assms by (rule reset_within_window_checkRateLimit)
  with assms handler_rateLimits [of dec env st req] show ?thesis
    by (auto intro: reset_within_window_cleanup)
qed


text \<open>The state with a counter of 100 is the one 100 requests at time 0 leave.\<close>

lemma counted_to_reached:
  "snd (admits Map.empty ''unknown'' (0 # replicate 99 0)) ''unknown''
     = rateLimits (counted_to 100 60000 :: string state) ''unknown''"
proof -
  have "snd (admits Map.empty ''unknown'' (0 # replicate 99 0)) ''unknown''
      = Some \<lparr>count = 1 + int (length (replicate 99 (0::int))),
              resetTime = 0 + windowMs RATE_LIMIT\<rparr>"
    by (rule admits_new_window) simp_all
  then show ?thesis
    by (simp add: counted_to_def)
qed

section \<open>Cache hits\<close>

lemma fetchFromEbird_error:
  assumes "fetch env (ebirdUrl d) k = Inr r" and "\<not> ok r" and "fetch_text r = Inr t"
  shows "fetchFromEbird env st hs d k =
           respond (fetch_status r) hs
             (Object [(''error'', Str (''eBird API error: '' @ show_int (fetch_status r))),
                      (''details'', Str t)])
             st [(ebirdUrl d, k)]"
  using assms by (simp add: fetchFromEbird_def Let_def)

text \<open>The state a successful fetch leaves: the entry written, then the sweep
  if the draw is below 0.01.\<close>

lemma fetchFromEbird_success:
  assumes "fetch env (ebirdUrl d) k = Inr r" and "ok r" and "fetch_json r = Inr p"
  shows "status (response (fetchFromEbird env st hs d k)) = 200"
    and "body (response (fetchFromEbird env st hs d k)) = Payload p"
    and "res_headers (response (fetchFromEbird env st hs d k)) ''X-Cache'' = Some (HStr ''MISS'')"
    and "cache (state_after (fetchFromEbird env st hs d k)) =
           (let written = (cache st)(getCacheKey d \<mapsto>
                             \<lparr>data = p, expiry = now_store env + getCacheTTL d\<rparr>)
            in if math_random env < 0.01 then cleanupCache (now_cleanupCache env) written
               else written)"
  using assms by (simp_all add: fetchFromEbird_def Let_def setHeader_def)

text \<open>Every other outcome of the fetch leaves the state and the \<^verbatim>\<open>X-Cache\<close> header
  as they were.\<close>

lemma fetchFromEbird_frame:
  "res_headers (response (fetchFromEbird env st hs d k)) ''X-Cache'' = Some (HStr ''MISS'')
   \<or> (res_headers (response (fetchFromEbird env st hs d k)) ''X-Cache'' = hs ''X-Cache''
       \<and> state_after (fetchFromEbird env st hs d k) = st)"
  by (simp add: fetchFromEbird_def Let_def setHeader_def split: sum.splits)

lemma handler_hit:
  assumes "reaches_lookup dec env st req d"
    and "cache st (getCacheKey d) = Some e" and "now_lookup env < expiry e"
  shows "handler dec env st req =
           respond 200
             (setHeader ''Cache-Control'' (HStr ''s-maxage=60, stale-while-revalidate=300'')
               (setHeader ''X-Cache'' (HStr ''HIT'')
                 (rateLimitHeaders (fst (checkRateLimit (now_checkRateLimit env) (rateLimits st)
                                           (clientIP (headers req)))))))
             (Payload (data e)) (st\<lparr>rateLimits := counted env st req\<rparr>) []"
  using assms by (simp add: reaches_lookup_def handler_at_allowlist Let_def)

lemma handler_miss:
  assumes "reaches_lookup dec env st req d"
    and "\<not> (\<exists>e. cache st (getCacheKey d) = Some e \<and> now_lookup env < expiry e)"
  shows "handler dec env st req =
           fetchFromEbird env (st\<lparr>rateLimits := counted env st req\<rparr>)
             (rateLimitHeaders (fst (checkRateLimit (now_checkRateLimit env) (rateLimits st)
                                       (clientIP (headers req)))))
             d (the (EBIRD_API_KEY env))"
proof (cases "cache st (getCacheKey d)")
  case None
  then show ?thesis
    using assms(1) by (simp add: reaches_lookup_def handler_at_allowlist Let_def)
next
  case (Some e)
  then have "\<not> now_lookup env < expiry e" using assms(2) by simp
  then show ?thesis
    using assms(1) Some by (simp add: reaches_lookup_def handler_at_allowlist Let_def)
qed

text \<open>
  C9.  A request answered from the cache (the response carries the marker
  \<^verbatim>\<open>X-Cache: HIT\<close>) leaves the cache as it found it: nothing is written or
  replaced and no sweep runs, of the cache or of the rate records, whose map
  is the one \<^const>\<open>checkRateLimit\<close> returned; no upstream call is made.  The
  cache changes only on the path of a successful fetch, whose response
  carries \<^verbatim>\<open>X-Cache: MISS\<close>.
\<close>

theorem cache_hit_frame:
  "(res_headers (response (handler dec env st req)) ''X-Cache'' = Some (HStr ''HIT'') \<longrightarrow>
      cache (state_after (handler dec env st req)) = cache st
      \<and> rateLimits (state_after (handler dec env st req)) = counted env st req
      \<and> upstream_calls (handler dec env st req) = [])
   \<and> (cache (state_after (handler dec env st req)) \<noteq> cache st \<longrightarrow>
        res_headers (response (handler dec env st req)) ''X-Cache'' = Some (HStr ''MISS''))"
proof (cases "at_allowlist dec env st req")
  case None
  from handler_before_allowlist [OF None] show ?thesis by auto
next
  case (Some d)
  let ?st1 = "st\<lparr>rateLimits := counted env st req\<rparr>"
  let ?hs = "rateLimitHeaders (fst (checkRateLimit (now_checkRateLimit env) (rateLimits st)
                                      (clientIP (headers req))))"
  show ?thesis
  proof (cases "isAllowed d")
    case False
    then show ?thesis by (simp add: handler_at_allowlist [OF Some] Let_def)
  next
    case True
    with Some have reach: "reaches_lookup dec env st req d"
      by (simp add: reaches_lookup_def)
    show ?thesis
    proof (cases "\<exists>e. cache st (getCacheKey d) = Some e \<and> now_lookup env < expiry e")
      case True
      then obtain e where "cache st (getCacheKey d) = Some e" "now_lookup env < expiry e"
        by blast
      then show ?thesis
        by (simp add: handler_hit [OF reach] setHeader_def)
    next
      case False
      from fetchFromEbird_frame [of env ?st1 ?hs d "the (EBIRD_API_KEY env)"]
      show ?thesis unfolding handler_miss [OF reach False] by auto
    qed
  qed
qed

lemma example_hit:
  "res_headers (response (handler Some (at_time 1000 sightings)
       (holding ''/data/obs/US-MA/recent'' ''[1]'' 5000)
       (get_request ''/data/obs/US-MA/recent''))) ''X-Cache'' = Some (HStr ''HIT'')"
  by (simp add: handler_def get_request_def at_time_def holding_def
        clientIP_def truthy_def checkRateLimit_def Let_def isAllowed_def ALLOWED_PATHS_def
        getCacheKey_def setHeader_def)

theorem cache_hit_frame_witness:
  "res_headers (response (handler Some (at_time 1000 sightings)
       (holding ''/data/obs/US-MA/recent'' ''[1]'' 5000)
       (get_request ''/data/obs/US-MA/recent''))) ''X-Cache'' = Some (HStr ''HIT'')
   \<and> cache (state_after (handler Some (at_time 1000 sightings)
       (holding ''/data/obs/US-MA/recent'' ''[1]'' 5000)
       (get_request ''/data/obs/US-MA/recent''))) (getCacheKey ''/data/obs/US-MA/recent'')
      = Some \<lparr>data = ''[1]'', expiry = 5000\<rparr>
   \<and> upstream_calls (handler Some (at_time 1000 sightings)
       (holding ''/data/obs/US-MA/recent'' ''[1]'' 5000)
       (get_request ''/data/obs/US-MA/recent'')) = []"
  using example_hit
    cache_hit_frame [of Some "at_time 1000 sightings" "holding ''/data/obs/US-MA/recent'' ''[1]'' 5000"
      "get_request ''/data/obs/US-MA/recent''"]
  by (simp add: holding_def)


section \<open>Upstream errors\<close>

lemma handler_calls_reach:
  assumes "upstream_calls (handler dec env st req) = [(u, k)]"
  shows "\<exists>d. reaches_lookup dec env st req d
           \<and> \<not> (\<exists>e. cache st (getCacheKey d) = Some e \<and> now_lookup env < expiry e)
           \<and> u = ebirdUrl d \<and> k = the (EBIRD_API_KEY env)"
  using assms
  by (auto simp: handler_calls reaches_lookup_def split: option.splits if_splits)

lemma at_allowlist_again:
  assumes "at_allowlist dec env st req = Some d"
    and "admitted env2 st2 req" and "truthy (EBIRD_API_KEY env2)"
  shows "at_allowlist dec env2 st2 req = Some d"
  using at_allowlist_SomeD [OF assms(1)] assms(2,3)
  by (auto simp: at_allowlist_def)

text \<open>
  C3, as the code has it.  For every request on which the handler calls the
  upstream and the upstream responds with a status \<open>S\<close> that is not a success
  (not in 200 to 299) and the handler reads its body text: the response
  status is \<open>S\<close>, whatever \<open>S\<close> is, the body text is forwarded unchanged under
  \<^verbatim>\<open>details\<close>, and the cache is left as it was.  So the same request, made
  again when the clock has not run backwards, finds no fresh entry: as the
  first one did, it gets past the rate limiter and the key check to the
  lookup, and then it calls the upstream again, at the same URL.
\<close>

theorem upstream_error_passthrough:
  "upstream_calls (handler dec env st req) = [(u, k)] \<and>
   fetch env u k = Inr r \<and> \<not> ok r \<and> fetch_text r = Inr t
   \<longrightarrow>
     status (response (handler dec env st req)) = fetch_status r
     \<and> body (response (handler dec env st req)) =
         Object [(''error'', Str (''eBird API error: '' @ show_int (fetch_status r))),
                 (''details'', Str t)]
     \<and> cache (state_after (handler dec env st req)) = cache st
     \<and> (admitted env2 (state_after (handler dec env st req)) req \<and>
        truthy (EBIRD_API_KEY env2) \<and> now_lookup env \<le> now_lookup env2
        \<longrightarrow> upstream_calls (handler dec env2 (state_after (handler dec env st req)) req)
              = [(u, the (EBIRD_API_KEY env2))])"
proof (intro impI, elim conjE)
  let ?out = "handler dec env st req"
  assume calls: "upstream_calls ?out = [(u, k)]"
    and up: "fetch env u k = Inr r" "\<not> ok r" "fetch_text r = Inr t"
  from handler_calls_reach [OF calls]
  obtain d where reach: "reaches_lookup dec env st req d"
    and miss: "\<not> (\<exists>e. cache st (getCacheKey d) = Some e \<and> now_lookup env < expiry e)"
    and u: "u = ebirdUrl d" and k: "k = the (EBIRD_API_KEY env)"
    by blast
  let ?st1 = "st\<lparr>rateLimits := counted env st req\<rparr>"
  have out: "?out =
      respond (fetch_status r)
        (rateLimitHeaders (fst (checkRateLimit (now_checkRateLimit env) (rateLimits st)
                                  (clientIP (headers req)))))
        (Object [(''error'', Str (''eBird API error: '' @ show_int (fetch_status r))),
                 (''details'', Str t)])
        ?st1 [(ebirdUrl d, the (EBIRD_API_KEY env))]"
    unfolding handler_miss [OF reach miss]
    using up unfolding u k by (rule fetchFromEbird_error)
  have again: "admitted env2 (state_after ?out) req \<and>
        truthy (EBIRD_API_KEY env2) \<and> now_lookup env \<le> now_lookup env2
        \<longrightarrow> upstream_calls (handler dec env2 (state_after ?out) req)
              = [(u, the (EBIRD_API_KEY env2))]"
  proof (intro impI, elim conjE)
    assume adm: "admitted env2 (state_after ?out) req"
      and key: "truthy (EBIRD_API_KEY env2)"
      and clock: "now_lookup env \<le> now_lookup env2"
    have "at_allowlist dec env2 (state_after ?out) req = Some d"
      using reach adm key by (auto simp: reaches_lookup_def intro: at_allowlist_again)
    moreover have "isAllowed d"
      using reach by (simp add: reaches_lookup_def)
    moreover have "\<not> (\<exists>e. cache (state_after ?out) (getCacheKey d) = Some e
                          \<and> now_lookup env2 < expiry e)"
      using miss clock by (auto simp: out)
    ultimately show "upstream_calls (handler dec env2 (state_after ?out) req)
              = [(u, the (EBIRD_API_KEY env2))]"
      by (simp add: handler_calls u)
  qed
  show "status (response ?out) = fetch_status r
     \<and> body (response ?out) =
         Object [(''error'', Str (''eBird API error: '' @ show_int (fetch_status r))),
                 (''details'', Str t)]
     \<and> cache (state_after ?out) = cache st
     \<and> (admitted env2 (state_after ?out) req \<and>
        truthy (EBIRD_API_KEY env2) \<and> now_lookup env \<le> now_lookup env2
        \<longrightarrow> upstream_calls (handler dec env2 (state_after ?out) req)
              = [(u, the (EBIRD_API_KEY env2))])"
    using again by (simp add: out)
qed

lemma example_not_found:
  "handler Some (at_time 1000 not_found) cold_start (get_request ''/data/obs/US-MA/recent'') =
     respond 404
       (rateLimitHeaders \<lparr>allowed = True, remaining = 99, check_resetTime = 61000\<rparr>)
       (Object [(''error'', Str ''eBird API error: 404''), (''details'', Str ''Not Found'')])
       \<lparr>cache = Map.empty,
        rateLimits = [''unknown'' \<mapsto> \<lparr>count = 1, resetTime = 61000\<rparr>]\<rparr>
       [(''https://api.ebird.org/v2/data/obs/US-MA/recent'', ''secret'')]"
  by (simp add: handler_def fetchFromEbird_def get_request_def at_time_def not_found_def
        cold_start_def clientIP_def truthy_def checkRateLimit_def Let_def isAllowed_def
        ALLOWED_PATHS_def getCacheKey_def ebirdUrl_def ok_def show_int_def show_nat.simps)

theorem upstream_error_passthrough_witness:
  "status (response (handler Some (at_time 1000 not_found) cold_start
       (get_request ''/data/obs/US-MA/recent''))) = 404
   \<and> body_field ''details'' (body (response (handler Some (at_time 1000 not_found) cold_start
       (get_request ''/data/obs/US-MA/recent'')))) = Some (Str ''Not Found'')
   \<and> cache (state_after (handler Some (at_time 1000 not_found) cold_start
       (get_request ''/data/obs/US-MA/recent''))) = Map.empty
   \<and> upstream_calls (handler Some (at_time 2000 not_found)
       (state_after (handler Some (at_time 1000 not_found) cold_start
          (get_request ''/data/obs/US-MA/recent'')))
       (get_request ''/data/obs/US-MA/recent''))
      = [(''https://api.ebird.org/v2/data/obs/US-MA/recent'', ''secret'')]"
proof -
  let ?req = "get_request ''/data/obs/US-MA/recent''"
  let ?out = "handler Some (at_time 1000 not_found) cold_start ?req"
  let ?r = "\<lparr>fetch_status = 404, fetch_text = Inr ''Not Found'',
             fetch_json = Inl ''Unexpected token N in JSON at position 0''\<rparr> :: string fetch_response"
  have calls: "upstream_calls ?out = [(''https://api.ebird.org/v2/data/obs/US-MA/recent'', ''secret'')]"
    by (simp add: example_not_found)
  have up: "fetch (at_time 1000 not_found) ''https://api.ebird.org/v2/data/obs/US-MA/recent'' ''secret''
              = Inr ?r"
    "\<not> ok ?r" "fetch_text ?r = Inr ''Not Found''"
    by (simp_all add: at_time_def not_found_def ok_def)
  have st: "state_after ?out =
      \<lparr>cache = Map.empty, rateLimits = [''unknown'' \<mapsto> \<lparr>count = 1, resetTime = 61000\<rparr>]\<rparr>"
    by (simp add: example_not_found)
  have adm: "admitted (at_time 2000 not_found) (state_after ?out) ?req"
    unfolding st
    by (simp add: admitted_def get_request_def at_time_def clientIP_def
          truthy_def checkRateLimit_def Let_def)
  have key: "truthy (EBIRD_API_KEY (at_time 2000 not_found))"
    "now_lookup (at_time 1000 not_found) \<le> now_lookup (at_time 2000 not_found)"
    "the (EBIRD_API_KEY (at_time 2000 not_found)) = ''secret''"
    by (simp_all add: at_time_def truthy_def)
  from upstream_error_passthrough [of Some "at_time 1000 not_found" cold_start ?req
         "''https://api.ebird.org/v2/data/obs/US-MA/recent''" "''secret''" ?r "''Not Found''"
         "at_time 2000 not_found"] calls up adm key
  show ?thesis
    by (simp add: body_field_def cold_start_def)
qed


text \<open>
  C3 as stated fails: \<^verbatim>\<open>response.text()\<close> is awaited inside the \<^verbatim>\<open>try\<close>
  block (line 183), so when the upstream answers 404 and reading its body
  rejects, the \<^verbatim>\<open>catch\<close> of lines 215 to 221 answers with the generic 500
  instead of the upstream's 404.
\<close>

theorem upstream_error_body_unread:
  "upstream_calls (handler Some (at_time 1000 body_lost) cold_start
       (get_request ''/data/obs/US-MA/recent''))
     = [(''https://api.ebird.org/v2/data/obs/US-MA/recent'', ''secret'')]
   \<and> fetch (at_time 1000 body_lost) ''https://api.ebird.org/v2/data/obs/US-MA/recent'' ''secret''
       = Inr \<lparr>fetch_status = 404, fetch_text = Inl ''terminated'',
               fetch_json = Inl ''terminated''\<rparr>
   \<and> \<not> ok \<lparr>fetch_status = 404, fetch_text = Inl ''terminated'',
              fetch_json = Inl ''terminated'' :: string + string\<rparr>
   \<and> status (response (handler Some (at_time 1000 body_lost) cold_start
       (get_request ''/data/obs/US-MA/recent''))) = 500
   \<and> body (response (handler Some (at_time 1000 body_lost) cold_start
       (get_request ''/data/obs/US-MA/recent''))) =
       Object [(''error'', Str ''Failed to fetch from eBird''), (''message'', Str ''terminated'')]"
  by (simp add: handler_def fetchFromEbird_def get_request_def at_time_def body_lost_def
        cold_start_def clientIP_def truthy_def checkRateLimit_def Let_def isAllowed_def
        ALLOWED_PATHS_def getCacheKey_def ebirdUrl_def ok_def)

section \<open>Cache lookups\<close>

lemma reaches_lookup_miss:
  assumes "reaches_lookup dec env st req d" and "upstream_calls (handler dec env st req) \<noteq> []"
  shows "\<not> (\<exists>e. cache st (getCacheKey d) = Some e \<and> now_lookup env < expiry e)"
  using assms by (auto simp: handler_calls reaches_lookup_def)

text \<open>
  C4.  For every key: let a request for the decoded endpoint \<open>d\<close> miss the
  cache and the upstream answer with success and a payload \<open>p\<close>; the handler
  returns \<open>p\<close> with the marker MISS and stores it under the key of \<open>d\<close> with
  the expiry \<open>now + getCacheTTL d\<close>.  Then a second request that gets to the
  lookup for the same key within the TTL (its clock reading is before the
  expiry, and not before the reading of the sweep the first request may have
  run) is answered 200 with the identical payload and the marker HIT, and
  makes no upstream call; and a request that gets to the lookup for that key
  once the TTL has elapsed makes exactly one upstream call.
\<close>

theorem cache_idempotence:
  "reaches_lookup dec env st req d \<and> upstream_calls (handler dec env st req) \<noteq> [] \<and>
   fetch env (ebirdUrl d) (the (EBIRD_API_KEY env)) = Inr r \<and> ok r \<and> fetch_json r = Inr p
   \<longrightarrow>
     body (response (handler dec env st req)) = Payload p
     \<and> res_headers (response (handler dec env st req)) ''X-Cache'' = Some (HStr ''MISS'')
     \<and> (reaches_lookup dec env2 (state_after (handler dec env st req)) req2 d \<and>
        now_cleanupCache env \<le> now_lookup env2 \<and>
        now_lookup env2 < now_store env + getCacheTTL d
        \<longrightarrow> status (response (handler dec env2 (state_after (handler dec env st req)) req2)) = 200
          \<and> body (response (handler dec env2 (state_after (handler dec env st req)) req2)) = Payload p
          \<and> res_headers (response (handler dec env2 (state_after (handler dec env st req)) req2))
               ''X-Cache'' = Some (HStr ''HIT'')
          \<and> upstream_calls (handler dec env2 (state_after (handler dec env st req)) req2) = [])
     \<and> (reaches_lookup dec env2 (state_after (handler dec env st req)) req2 d \<and>
        now_store env + getCacheTTL d \<le> now_lookup env2
        \<longrightarrow> upstream_calls (handler dec env2 (state_after (handler dec env st req)) req2)
              = [(ebirdUrl d, the (EBIRD_API_KEY env2))])"
proof (intro impI, elim conjE)
  let ?out = "handler dec env st req"
  let ?st1 = "st\<lparr>rateLimits := counted env st req\<rparr>"
  let ?hs = "rateLimitHeaders (fst (checkRateLimit (now_checkRateLimit env) (rateLimits st)
                                      (clientIP (headers req))))"
  let ?entry = "\<lparr>data = p, expiry = now_store env + getCacheTTL d\<rparr>"
  let ?key = "getCacheKey d"
  assume reach: "reaches_lookup dec env st req d"
    and calls: "upstream_calls ?out \<noteq> []"
    and up: "fetch env (ebirdUrl d) (the (EBIRD_API_KEY env)) = Inr r" "ok r" "fetch_json r = Inr p"
  have out: "?out = fetchFromEbird env ?st1 ?hs d (the (EBIRD_API_KEY env))"
    using reach reaches_lookup_miss [OF reach calls] by (rule handler_miss)
  note ok = fetchFromEbird_success [OF up, of ?st1 ?hs, folded out]
  have stored: "cache (state_after ?out) ?key = Some ?entry
      \<or> (cache (state_after ?out) ?key = None \<and> expiry ?entry < now_cleanupCache env)"
    by (simp add: ok(4) Let_def cleanupCache_def)
  have within: "reaches_lookup dec env2 (state_after ?out) req2 d \<and>
        now_cleanupCache env \<le> now_lookup env2 \<and>
        now_lookup env2 < now_store env + getCacheTTL d
        \<longrightarrow> status (response (handler dec env2 (state_after ?out) req2)) = 200
          \<and> body (response (handler dec env2 (state_after ?out) req2)) = Payload p
          \<and> res_headers (response (handler dec env2 (state_after ?out) req2))
               ''X-Cache'' = Some (HStr ''HIT'')
          \<and> upstream_calls (handler dec env2 (state_after ?out) req2) = []"
  proof (intro impI, elim conjE)
    assume reach2: "reaches_lookup dec env2 (state_after ?out) req2 d"
      and clock: "now_cleanupCache env \<le> now_lookup env2"
      and fresh: "now_lookup env2 < now_store env + getCacheTTL d"
    from stored clock fresh have e: "cache (state_after ?out) ?key = Some ?entry"
      by auto
    have f: "now_lookup env2 < expiry ?entry" using fresh by simp
    show "status (response (handler dec env2 (state_after ?out) req2)) = 200
          \<and> body (response (handler dec env2 (state_after ?out) req2)) = Payload p
          \<and> res_headers (response (handler dec env2 (state_after ?out) req2))
               ''X-Cache'' = Some (HStr ''HIT'')
          \<and> upstream_calls (handler dec env2 (state_after ?out) req2) = []"
      by (simp add: handler_hit [OF reach2 e f] setHeader_def)
  qed
  have after: "reaches_lookup dec env2 (state_after ?out) req2 d \<and>
        now_store env + getCacheTTL d \<le> now_lookup env2
        \<longrightarrow> upstream_calls (handler dec env2 (state_after ?out) req2)
              = [(ebirdUrl d, the (EBIRD_API_KEY env2))]"
  proof (intro impI, elim conjE)
    assume reach2: "reaches_lookup dec env2 (state_after ?out) req2 d"
      and stale: "now_store env + getCacheTTL d \<le> now_lookup env2"
    from stored stale
    have "\<not> (\<exists>e. cache (state_after ?out) ?key = Some e \<and> now_lookup env2 < expiry e)"
      by auto
    from handler_miss [OF reach2 this]
    show "upstream_calls (handler dec env2 (state_after ?out) req2)
              = [(ebirdUrl d, the (EBIRD_API_KEY env2))]"
      by (simp add: fetchFromEbird_calls)
  qed
  show "body (response ?out) = Payload p
     \<and> res_headers (response ?out) ''X-Cache'' = Some (HStr ''MISS'')
     \<and> (reaches_lookup dec env2 (state_after ?out) req2 d \<and>
        now_cleanupCache env \<le> now_lookup env2 \<and>
        now_lookup env2 < now_store env + getCacheTTL d
        \<longrightarrow> status (response (handler dec env2 (state_after ?out) req2)) = 200
          \<and> body (response (handler dec env2 (state_after ?out) req2)) = Payload p
          \<and> res_headers (response (handler dec env2 (state_after ?out) req2))
               ''X-Cache'' = Some (HStr ''HIT'')
          \<and> upstream_calls (handler dec env2 (state_after ?out) req2) = [])
     \<and> (reaches_lookup dec env2 (state_after ?out) req2 d \<and>
        now_store env + getCacheTTL d \<le> now_lookup env2
        \<longrightarrow> upstream_calls (handler dec env2 (state_after ?out) req2)
              = [(ebirdUrl d, the (EBIRD_API_KEY env2))])"
    using ok(2,3) within after by blast
qed


lemma example_sightings:
  "state_after (handler Some (at_time 1000 sightings) cold_start
       (get_request ''/data/obs/US-MA/recent'')) =
     \<lparr>cache = [getCacheKey ''/data/obs/US-MA/recent'' \<mapsto> \<lparr>data = ''[]'', expiry = 301000\<rparr>],
      rateLimits = [''unknown'' \<mapsto> \<lparr>count = 1, resetTime = 61000\<rparr>]\<rparr>"
  "upstream_calls (handler Some (at_time 1000 sightings) cold_start
       (get_request ''/data/obs/US-MA/recent''))
     = [(''https://api.ebird.org/v2/data/obs/US-MA/recent'', ''secret'')]"
  by (simp_all add: handler_def fetchFromEbird_def get_request_def at_time_def sightings_def
        cold_start_def clientIP_def truthy_def checkRateLimit_def Let_def isAllowed_def
        ALLOWED_PATHS_def ebirdUrl_def ok_def getCacheTTL_def CACHE_TTL_def)

lemma example_reaches_lookup_again:
  "reaches_lookup Some (at_time t sightings)
     \<lparr>cache = c, rateLimits = [''unknown'' \<mapsto> \<lparr>count = 1, resetTime = 61000\<rparr>]\<rparr>
     (get_request ''/data/obs/US-MA/recent'') ''/data/obs/US-MA/recent''"
  by (simp add: reaches_lookup_def at_allowlist_def get_request_def at_time_def admitted_def
        clientIP_def checkRateLimit_def Let_def truthy_def isAllowed_def ALLOWED_PATHS_def)

theorem cache_idempotence_witness:
  "res_headers (response (handler Some (at_time 2000 sightings)
       (state_after (handler Some (at_time 1000 sightings) cold_start
          (get_request ''/data/obs/US-MA/recent'')))
       (get_request ''/data/obs/US-MA/recent''))) ''X-Cache'' = Some (HStr ''HIT'')
   \<and> body (response (handler Some (at_time 2000 sightings)
       (state_after (handler Some (at_time 1000 sightings) cold_start
          (get_request ''/data/obs/US-MA/recent'')))
       (get_request ''/data/obs/US-MA/recent''))) = Payload ''[]''
   \<and> upstream_calls (handler Some (at_time 2000 sightings)
       (state_after (handler Some (at_time 1000 sightings) cold_start
          (get_request ''/data/obs/US-MA/recent'')))
       (get_request ''/data/obs/US-MA/recent'')) = []
   \<and> upstream_calls (handler Some (at_time 301000 sightings)
       (state_after (handler Some (at_time 1000 sightings) cold_start
          (get_request ''/data/obs/US-MA/recent'')))
       (get_request ''/data/obs/US-MA/recent''))
      = [(''https://api.ebird.org/v2/data/obs/US-MA/recent'', ''secret'')]"
proof -
  let ?req = "get_request ''/data/obs/US-MA/recent''"
  let ?d = "''/data/obs/US-MA/recent''"
  let ?env = "at_time 1000 sightings"
  let ?out = "handler Some ?env cold_start ?req"
  let ?r = "\<lparr>fetch_status = 200, fetch_text = Inr ''[]'', fetch_json = Inr ''[]''\<rparr>
              :: string fetch_response"
  have first: "reaches_lookup Some ?env cold_start ?req ?d"
    by (simp add: reaches_lookup_def at_allowlist_def get_request_def at_time_def admitted_def
        cold_start_def checkRateLimit_def Let_def truthy_def isAllowed_def ALLOWED_PATHS_def)
  have calls: "upstream_calls ?out \<noteq> []"
    by (simp add: example_sightings)
  have up: "fetch ?env (ebirdUrl ?d) (the (EBIRD_API_KEY ?env)) = Inr ?r" "ok ?r"
    "fetch_json ?r = Inr ''[]''"
    by (simp_all add: at_time_def sightings_def ok_def)
  have again: "reaches_lookup Some (at_time t sightings) (state_after ?out) ?req ?d" for t
    unfolding example_sightings by (rule example_reaches_lookup_again)
  have times: "now_cleanupCache ?env \<le> now_lookup (at_time 2000 sightings)"
    "now_lookup (at_time 2000 sightings) < now_store ?env + getCacheTTL ?d"
    "now_store ?env + getCacheTTL ?d \<le> now_lookup (at_time 301000 sightings)"
    "the (EBIRD_API_KEY (at_time 301000 sightings)) = ''secret''"
    "ebirdUrl ?d = ''https://api.ebird.org/v2/data/obs/US-MA/recent''"
    by (simp_all add: at_time_def getCacheTTL_def CACHE_TTL_def ebirdUrl_def)
  from cache_idempotence [of Some ?env cold_start ?req ?d ?r "''[]''" "at_time 2000 sightings" ?req]
    cache_idempotence [of Some ?env cold_start ?req ?d ?r "''[]''" "at_time 301000 sightings" ?req]
    first calls up again times
  show ?thesis
    by simp
qed

lemma at_allowlist_cache:
  "at_allowlist dec env (st\<lparr>cache := c\<rparr>) req = at_allowlist dec env st req"
  by (simp add: at_allowlist_def admitted_def)

lemma counted_cache: "counted env (st\<lparr>cache := c\<rparr>) req = counted env st req"
  by (simp add: counted_def)

lemma fetchFromEbird_response:
  "response (fetchFromEbird env st hs d k) = response (fetchFromEbird env st' hs d k)"
  by (simp add: fetchFromEbird_def Let_def respond_def split: sum.splits)

text \<open>
  C5.  The lookup is lazy-expiring.  For every key with a stored entry: when
  the entry's expiry is not after the clock at the lookup, the lookup is a
  miss: the response carries no HIT marker, the upstream is called, the
  response is the very one the handler gives when the entry is absent (so
  the stored payload has no part in it), and the entry stays where it is
  unless a successful fetch replaces it.  When the expiry is still ahead, the
  entry is returned as a hit: 200, the marker HIT, the stored payload, no
  upstream call.
\<close>

theorem lazy_expiry:
  "reaches_lookup dec env st req d \<and> cache st (getCacheKey d) = Some e \<longrightarrow>
     (expiry e \<le> now_lookup env \<longrightarrow>
        res_headers (response (handler dec env st req)) ''X-Cache'' \<noteq> Some (HStr ''HIT'')
        \<and> upstream_calls (handler dec env st req) = [(ebirdUrl d, the (EBIRD_API_KEY env))]
        \<and> response (handler dec env st req) =
            response (handler dec env (st\<lparr>cache := (cache st)(getCacheKey d := None)\<rparr>) req)
        \<and> (cache (state_after (handler dec env st req)) (getCacheKey d) = Some e
            \<or> res_headers (response (handler dec env st req)) ''X-Cache'' = Some (HStr ''MISS'')))
     \<and> (now_lookup env < expiry e \<longrightarrow>
          status (response (handler dec env st req)) = 200
          \<and> res_headers (response (handler dec env st req)) ''X-Cache'' = Some (HStr ''HIT'')
          \<and> body (response (handler dec env st req)) = Payload (data e)
          \<and> upstream_calls (handler dec env st req) = [])"
proof (intro impI conjI; elim conjE)
  let ?st1 = "st\<lparr>rateLimits := counted env st req\<rparr>"
  let ?hs = "rateLimitHeaders (fst (checkRateLimit (now_checkRateLimit env) (rateLimits st)
                                      (clientIP (headers req))))"
  let ?st' = "st\<lparr>cache := (cache st)(getCacheKey d := None)\<rparr>"
  assume reach: "reaches_lookup dec env st req d"
    and e: "cache st (getCacheKey d) = Some e"
  {
    assume "expiry e \<le> now_lookup env"
    with e have miss: "\<not> (\<exists>e. cache st (getCacheKey d) = Some e \<and> now_lookup env < expiry e)"
      by simp
    note out = handler_miss [OF reach miss]
    have reach': "reaches_lookup dec env ?st' req d"
      using reach by (simp add: reaches_lookup_def at_allowlist_cache)
    have "\<not> (\<exists>e. cache ?st' (getCacheKey d) = Some e \<and> now_lookup env < expiry e)"
      by simp
    note out' = handler_miss [OF reach' this]
    from fetchFromEbird_frame [of env ?st1 ?hs d "the (EBIRD_API_KEY env)"]
    show "res_headers (response (handler dec env st req)) ''X-Cache'' \<noteq> Some (HStr ''HIT'')"
      unfolding out by auto
    show "upstream_calls (handler dec env st req) = [(ebirdUrl d, the (EBIRD_API_KEY env))]"
      unfolding out by (rule fetchFromEbird_calls)
    show "response (handler dec env st req) = response (handler dec env ?st' req)"
      unfolding out out' by (simp add: counted_cache) (rule fetchFromEbird_response)
    from fetchFromEbird_frame [of env ?st1 ?hs d "the (EBIRD_API_KEY env)"] e
    show "cache (state_after (handler dec env st req)) (getCacheKey d) = Some e
            \<or> res_headers (response (handler dec env st req)) ''X-Cache'' = Some (HStr ''MISS'')"
      unfolding out by auto
  }
  {
    assume "now_lookup env < expiry e"
    note out = handler_hit [OF reach e this]
    show "status (response (handler dec env st req)) = 200"
      and "res_headers (response (handler dec env st req)) ''X-Cache'' = Some (HStr ''HIT'')"
      and "body (response (handler dec env st req)) = Payload (data e)"
      and "upstream_calls (handler dec env st req) = []"
      unfolding out by (simp_all add: setHeader_def)
  }
qed


theorem lazy_expiry_witness:
  "upstream_calls (handler Some (at_time 1000 sightings)
       (holding ''/data/obs/US-MA/recent'' ''[1]'' 500) (get_request ''/data/obs/US-MA/recent''))
     = [(''https://api.ebird.org/v2/data/obs/US-MA/recent'', ''secret'')]
   \<and> res_headers (response (handler Some (at_time 1000 sightings)
       (holding ''/data/obs/US-MA/recent'' ''[1]'' 500) (get_request ''/data/obs/US-MA/recent'')))
       ''X-Cache'' \<noteq> Some (HStr ''HIT'')
   \<and> body (response (handler Some (at_time 1000 sightings)
       (holding ''/data/obs/US-MA/recent'' ''[1]'' 5000) (get_request ''/data/obs/US-MA/recent'')))
     = Payload ''[1]''
   \<and> upstream_calls (handler Some (at_time 1000 sightings)
       (holding ''/data/obs/US-MA/recent'' ''[1]'' 5000) (get_request ''/data/obs/US-MA/recent''))
     = []"
proof -
  let ?req = "get_request ''/data/obs/US-MA/recent''"
  let ?d = "''/data/obs/US-MA/recent''"
  let ?env = "at_time 1000 sightings"
  have reach: "reaches_lookup Some ?env (holding ?d ''[1]'' t) ?req ?d" for t
    by (simp add: reaches_lookup_def at_allowlist_def get_request_def at_time_def admitted_def
        holding_def checkRateLimit_def Let_def truthy_def isAllowed_def ALLOWED_PATHS_def)
  have entry: "cache (holding ?d ''[1]'' t) (getCacheKey ?d) = Some \<lparr>data = ''[1]'', expiry = t\<rparr>"
    for t
    by (simp add: holding_def)
  have facts: "now_lookup ?env = 1000" "the (EBIRD_API_KEY ?env) = ''secret''"
    "ebirdUrl ?d = ''https://api.ebird.org/v2/data/obs/US-MA/recent''"
    by (simp_all add: at_time_def ebirdUrl_def)
  have stale: "expiry \<lparr>data = ''[1]'', expiry = 500\<rparr> \<le> now_lookup ?env"
    and fresh: "now_lookup ?env < expiry \<lparr>data = ''[1]'', expiry = 5000\<rparr>"
    by (simp_all add: at_time_def)
  note miss = lazy_expiry [of Some ?env "holding ?d ''[1]'' 500" ?req ?d
      "\<lparr>data = ''[1]'', expiry = 500\<rparr>",
      THEN mp, OF conjI [OF reach entry], THEN conjunct1, THEN mp, OF stale]
  note hit = lazy_expiry [of Some ?env "holding ?d ''[1]'' 5000" ?req ?d
      "\<lparr>data = ''[1]'', expiry = 5000\<rparr>",
      THEN mp, OF conjI [OF reach entry], THEN conjunct2, THEN mp, OF fresh]
  from miss [THEN conjunct1] miss [THEN conjunct2, THEN conjunct1]
    hit [THEN conjunct2, THEN conjunct2]
  show ?thesis
    by (simp add: facts)
qed


end
